theory Spec2Isabelle
  imports Main "HOL-Library.AList"
begin

section \<open>The ResourceCreator controller\<close>

text \<open>
  A shallow embedding of \<^verbatim>\<open>Assignment-3/creator\<close>: the API types of
  \<^verbatim>\<open>api/v1/resourcecreator_types.go\<close> and the reconciler of
  \<^verbatim>\<open>internal/controller/resourcecreator_controller.go\<close> (\<^verbatim>\<open>Reconcile\<close> and the
  \<^verbatim>\<open>dynamicHandler\<close> closure of \<^verbatim>\<open>SetupWithManager\<close>).

  The controller is written against three libraries whose code is not part of the
  repository: the dynamically typed object \<^verbatim>\<open>unstructured.Unstructured\<close>, the
  owner-reference helpers of \<^verbatim>\<open>metav1\<close>, and controller-runtime's
  \<^verbatim>\<open>client.Client\<close>. Each is modelled below from its Go implementation, as far as
  the controller uses it; \<^verbatim>\<open>json.Unmarshal\<close> is taken as a parameter.
\<close>

subsection \<open>Untyped content\<close>

text \<open>
  The values of Go's \<^verbatim>\<open>map[string]any\<close> after JSON decoding. A Go map is
  unordered; the association list keeps the order of insertion, and every reading below
  goes through \<^const>\<open>map_of\<close>. Numbers are carried, never computed with.
\<close>

datatype json =
    JNull
  | JBool bool
  | JNumber int
  | JString string
  | JArray "json list"
  | JObject "(string \<times> json) list"

type_synonym jobject = "(string \<times> json) list"

text \<open>\<^verbatim>\<open>Unstructured\<close> is a struct with the single field \<^verbatim>\<open>Object map[string]interface{}\<close>.\<close>

type_synonym Unstructured = jobject

text \<open>
  \<^verbatim>\<open>NestedFieldNoCopy\<close>: walks the path; a missing key, a \<^verbatim>\<open>nil\<close> or a
  non-map on the way give "not found" (the error of the non-map case is treated like
  "not found" by every caller used here).
\<close>

fun NestedFieldNoCopy :: "json \<Rightarrow> string list \<Rightarrow> json option" where
  "NestedFieldNoCopy val [] = Some val"
| "NestedFieldNoCopy (JObject m) (field # fields) =
     (case map_of m field of
        None \<Rightarrow> None
      | Some v \<Rightarrow> NestedFieldNoCopy v fields)"
| "NestedFieldNoCopy _ (field # fields) = None"

text \<open>\<^verbatim>\<open>getNestedString\<close>: the string at the path, or the empty string.\<close>

definition getNestedString :: "jobject \<Rightarrow> string list \<Rightarrow> string" where
  "getNestedString obj fields =
     (case NestedFieldNoCopy (JObject obj) fields of
        Some (JString s) \<Rightarrow> s
      | _ \<Rightarrow> [])"

text \<open>\<^verbatim>\<open>NestedBool\<close>, as \<^verbatim>\<open>extractOwnerReference\<close> reads it: found and a bool, or nothing.\<close>

definition NestedBool :: "jobject \<Rightarrow> string list \<Rightarrow> bool option" where
  "NestedBool obj fields =
     (case NestedFieldNoCopy (JObject obj) fields of
        Some (JBool b) \<Rightarrow> Some b
      | _ \<Rightarrow> None)"

text \<open>
  \<^verbatim>\<open>setNestedField\<close>: creates the maps missing on the way; when a value on the way
  is not a map the library returns an error that \<^verbatim>\<open>Unstructured\<close> drops, and the
  object stays as it is. The path is never empty.
\<close>

fun setNestedField :: "jobject \<Rightarrow> json \<Rightarrow> string list \<Rightarrow> jobject" where
  "setNestedField m v [] = m"
| "setNestedField m v [field] = AList.update field v m"
| "setNestedField m v (field # fields) =
     (case map_of m field of
        None \<Rightarrow> AList.update field (JObject (setNestedField [] v fields)) m
      | Some (JObject sub) \<Rightarrow> AList.update field (JObject (setNestedField sub v fields)) m
      | Some _ \<Rightarrow> m)"

text \<open>\<^verbatim>\<open>RemoveNestedField\<close>: deletes the last key when every map on the way is there.\<close>

fun RemoveNestedField :: "jobject \<Rightarrow> string list \<Rightarrow> jobject" where
  "RemoveNestedField m [] = m"
| "RemoveNestedField m [field] = AList.delete field m"
| "RemoveNestedField m (field # fields) =
     (case map_of m field of
        Some (JObject sub) \<Rightarrow> AList.update field (JObject (RemoveNestedField sub fields)) m
      | _ \<Rightarrow> m)"

subsection \<open>Type coordinates and owner references\<close>

record GroupVersion =
  Group :: string
  Version :: string

record GroupVersionKind =
  Group :: string
  Version :: string
  Kind :: string

text \<open>\<^verbatim>\<open>GroupVersion.String\<close>: \<^verbatim>\<open>group/version\<close>, or the version alone for the core group.\<close>

definition GroupVersion_String :: "GroupVersion \<Rightarrow> string" where
  "GroupVersion_String gv =
     (if length (GroupVersion.Group gv) > 0
      then GroupVersion.Group gv @ ''/'' @ GroupVersion.Version gv
      else GroupVersion.Version gv)"

definition GroupVersionKind_GroupVersion :: "GroupVersionKind \<Rightarrow> GroupVersion" where
  "GroupVersionKind_GroupVersion gvk =
     \<lparr>GroupVersion.Group = GroupVersionKind.Group gvk,
      GroupVersion.Version = GroupVersionKind.Version gvk\<rparr>"

text \<open>\<^verbatim>\<open>metav1.OwnerReference\<close>; the two \<^verbatim>\<open>*bool\<close> fields are options.\<close>

record OwnerReference =
  APIVersion :: string
  Kind :: string
  Name :: string
  UID :: string
  Controller :: "bool option"
  BlockOwnerDeletion :: "bool option"

record NamespacedName =
  Namespace :: string
  Name :: string

text \<open>\<^verbatim>\<open>reconcile.Request\<close> (\<^verbatim>\<open>ctrl.Request\<close>) embeds the \<^verbatim>\<open>NamespacedName\<close>.\<close>

record Request =
  NamespacedName :: NamespacedName

text \<open>\<^verbatim>\<open>ctrl.Result\<close>; the controller only ever returns the zero value.\<close>

record Result =
  Requeue :: bool
  RequeueAfter :: int

subsection \<open>The API types of the controller\<close>

text \<open>\<^verbatim>\<open>ResourceSpec\<close>; \<^verbatim>\<open>Spec\<close> holds the raw bytes of \<^verbatim>\<open>apiextensionsv1.JSON\<close>.\<close>

record ResourceSpec =
  Group :: string
  Version :: string
  Kind :: string
  Name :: string
  Spec :: string

record ResourceCreatorSpec =
  Resources :: "ResourceSpec list"

record ResourceCreatorStatus =
  Resource :: ResourceSpec
  Status :: string
  LastUpdateTime :: int
  Message :: string

text \<open>
  \<^verbatim>\<open>ResourceCreator\<close>: of the embedded \<^verbatim>\<open>ObjectMeta\<close> the controller reads the
  name and the UID (through \<^verbatim>\<open>NewControllerRef\<close>); the namespace is kept with them.
\<close>

record ObjectMeta =
  Name :: string
  Namespace :: string
  UID :: string

record ResourceCreator =
  ObjectMeta :: ObjectMeta
  Spec :: ResourceCreatorSpec
  Status :: ResourceCreatorStatus

subsection \<open>Accessors of Unstructured\<close>

definition SetUnstructuredContent :: "jobject \<Rightarrow> Unstructured \<Rightarrow> Unstructured" where
  "SetUnstructuredContent content u = content"

definition GetAPIVersion :: "Unstructured \<Rightarrow> string" where
  "GetAPIVersion u = getNestedString u [''apiVersion'']"

definition SetAPIVersion :: "string \<Rightarrow> Unstructured \<Rightarrow> Unstructured" where
  "SetAPIVersion version u = setNestedField u (JString version) [''apiVersion'']"

definition GetKind :: "Unstructured \<Rightarrow> string" where
  "GetKind u = getNestedString u [''kind'']"

definition SetKind :: "string \<Rightarrow> Unstructured \<Rightarrow> Unstructured" where
  "SetKind kind u = setNestedField u (JString kind) [''kind'']"

definition SetGroupVersionKind :: "GroupVersionKind \<Rightarrow> Unstructured \<Rightarrow> Unstructured" where
  "SetGroupVersionKind gvk u =
     SetKind (GroupVersionKind.Kind gvk)
       (SetAPIVersion (GroupVersion_String (GroupVersionKind_GroupVersion gvk)) u)"

definition GetName :: "Unstructured \<Rightarrow> string" where
  "GetName u = getNestedString u [''metadata'', ''name'']"

definition SetName :: "string \<Rightarrow> Unstructured \<Rightarrow> Unstructured" where
  "SetName name u =
     (if length name = 0 then RemoveNestedField u [''metadata'', ''name'']
      else setNestedField u (JString name) [''metadata'', ''name''])"

definition GetNamespace :: "Unstructured \<Rightarrow> string" where
  "GetNamespace u = getNestedString u [''metadata'', ''namespace'']"

definition SetNamespace :: "string \<Rightarrow> Unstructured \<Rightarrow> Unstructured" where
  "SetNamespace namespace u =
     (if length namespace = 0 then RemoveNestedField u [''metadata'', ''namespace'']
      else setNestedField u (JString namespace) [''metadata'', ''namespace''])"

definition SetResourceVersion :: "string \<Rightarrow> Unstructured \<Rightarrow> Unstructured" where
  "SetResourceVersion resourceVersion u =
     (if length resourceVersion = 0 then RemoveNestedField u [''metadata'', ''resourceVersion'']
      else setNestedField u (JString resourceVersion) [''metadata'', ''resourceVersion''])"

text \<open>
  An owner reference as \<^verbatim>\<open>ToUnstructured\<close> writes it: the four strings always, the
  two pointers only when set (\<^verbatim>\<open>omitempty\<close>).
\<close>

definition ownerReferenceToUnstructured :: "OwnerReference \<Rightarrow> jobject" where
  "ownerReferenceToUnstructured reference =
     [(''apiVersion'', JString (APIVersion reference)),
      (''kind'', JString (OwnerReference.Kind reference)),
      (''name'', JString (OwnerReference.Name reference)),
      (''uid'', JString (OwnerReference.UID reference))]
     @ (case Controller reference of None \<Rightarrow> [] | Some b \<Rightarrow> [(''controller'', JBool b)])
     @ (case BlockOwnerDeletion reference of
          None \<Rightarrow> [] | Some b \<Rightarrow> [(''blockOwnerDeletion'', JBool b)])"

text \<open>\<^verbatim>\<open>SetOwnerReferences\<close>, for a slice that is not \<^verbatim>\<open>nil\<close> (the controller's never is).\<close>

definition SetOwnerReferences :: "OwnerReference list \<Rightarrow> Unstructured \<Rightarrow> Unstructured" where
  "SetOwnerReferences references u =
     setNestedField u
       (JArray (map (\<lambda>reference. JObject (ownerReferenceToUnstructured reference)) references))
       [''metadata'', ''ownerReferences'']"

definition extractOwnerReference :: "jobject \<Rightarrow> OwnerReference" where
  "extractOwnerReference v =
     \<lparr>APIVersion = getNestedString v [''apiVersion''],
      OwnerReference.Kind = getNestedString v [''kind''],
      OwnerReference.Name = getNestedString v [''name''],
      OwnerReference.UID = getNestedString v [''uid''],
      Controller = NestedBool v [''controller''],
      BlockOwnerDeletion = NestedBool v [''blockOwnerDeletion'']\<rparr>"

text \<open>
  \<^verbatim>\<open>GetOwnerReferences\<close>: no field, a field that is not a list, or one element that
  is not a map give the empty result.
\<close>

fun extractOwnerReferences :: "json list \<Rightarrow> OwnerReference list option" where
  "extractOwnerReferences [] = Some []"
| "extractOwnerReferences (JObject obj # original) =
     (case extractOwnerReferences original of
        None \<Rightarrow> None
      | Some ret \<Rightarrow> Some (extractOwnerReference obj # ret))"
| "extractOwnerReferences (_ # original) = None"

definition GetOwnerReferences :: "Unstructured \<Rightarrow> OwnerReference list" where
  "GetOwnerReferences u =
     (case NestedFieldNoCopy (JObject u) [''metadata'', ''ownerReferences''] of
        Some (JArray original) \<Rightarrow>
          (case extractOwnerReferences original of None \<Rightarrow> [] | Some ret \<Rightarrow> ret)
      | _ \<Rightarrow> [])"

text \<open>\<^verbatim>\<open>metav1.GetControllerOf\<close>: the first owner reference whose controller flag is set and true.\<close>

fun GetControllerOfRefs :: "OwnerReference list \<Rightarrow> OwnerReference option" where
  "GetControllerOfRefs [] = None"
| "GetControllerOfRefs (ref # refs) =
     (if Controller ref \<noteq> None \<and> the (Controller ref) then Some ref
      else GetControllerOfRefs refs)"

definition GetControllerOf :: "Unstructured \<Rightarrow> OwnerReference option" where
  "GetControllerOf controllee = GetControllerOfRefs (GetOwnerReferences controllee)"

text \<open>\<^verbatim>\<open>metav1.NewControllerRef\<close>.\<close>

definition NewControllerRef :: "ResourceCreator \<Rightarrow> GroupVersionKind \<Rightarrow> OwnerReference" where
  "NewControllerRef owner gvk =
     \<lparr>APIVersion = GroupVersion_String (GroupVersionKind_GroupVersion gvk),
      OwnerReference.Kind = GroupVersionKind.Kind gvk,
      OwnerReference.Name = ObjectMeta.Name (ObjectMeta owner),
      OwnerReference.UID = ObjectMeta.UID (ObjectMeta owner),
      Controller = Some True,
      BlockOwnerDeletion = Some True\<rparr>"

subsection \<open>Errors\<close>

text \<open>
  Go's \<^verbatim>\<open>error\<close> values, as far as the controller tells them apart: the API
  status "not found" (\<^verbatim>\<open>apierrors.IsNotFound\<close>), the status "already exists", and
  every other failure with its message. A \<^verbatim>\<open>nil\<close> error is \<^term>\<open>None\<close>.
\<close>

datatype error = NotFound | AlreadyExists | Failure string

text \<open>\<^verbatim>\<open>client.IgnoreNotFound\<close>.\<close>

definition IgnoreNotFound :: "error option \<Rightarrow> error option" where
  "IgnoreNotFound err = (if err = Some NotFound then None else err)"

subsection \<open>The resource store behind client.Client\<close>

text \<open>
  The verbs of the API, as the RBAC markers of the reconciler list them.
\<close>

datatype verb = VerbGet | VerbList | VerbWatch | VerbCreate | VerbUpdate | VerbPatch | VerbDelete

text \<open>
  An object of the store is addressed by its type (API version and kind), its namespace
  and its name.
\<close>

type_synonym ObjectKey = "string \<times> string \<times> NamespacedName"

datatype target = Parent NamespacedName | Child ObjectKey

datatype call = Call verb target

text \<open>
  The state the client talks to:
  \<^item> \<open>parents\<close>: the \<^verbatim>\<open>ResourceCreator\<close> records, read through the typed client;
  \<^item> \<open>objects\<close>: the records of every other type, read and written as
    \<^verbatim>\<open>Unstructured\<close>;
  \<^item> \<open>faults\<close>: what the environment does to the coming calls, one entry a call:
    \<^term>\<open>Some err\<close> makes the call fail with \<open>err\<close> and leaves the store as it
    is (a timeout, a rejected write, a stale cache), \<^term>\<open>None\<close> and the empty list
    let the call through;
  \<^item> \<open>calls\<close>: the calls issued so far, oldest first.
  The store keeps an object the way it was sent: defaulting and the metadata a server
  adds are not modelled.
\<close>

record Cluster =
  parents :: "NamespacedName \<rightharpoonup> ResourceCreator"
  objects :: "ObjectKey \<rightharpoonup> Unstructured"
  faults :: "error option list"
  calls :: "call list"

definition invoke :: "call \<Rightarrow> Cluster \<Rightarrow> error option \<times> Cluster" where
  "invoke c s =
     (case faults s of
        [] \<Rightarrow> (None, s\<lparr>calls := calls s @ [c]\<rparr>)
      | fault # rest \<Rightarrow> (fault, s\<lparr>faults := rest, calls := calls s @ [c]\<rparr>))"

text \<open>The identity an \<^verbatim>\<open>Unstructured\<close> object states about itself.\<close>

definition objectKeyOf :: "Unstructured \<Rightarrow> ObjectKey" where
  "objectKeyOf u =
     (GetAPIVersion u, GetKind u, \<lparr>NamespacedName.Namespace = GetNamespace u, NamespacedName.Name = GetName u\<rparr>)"

text \<open>
  \<^verbatim>\<open>r.Get(ctx, key, &ResourceCreator{})\<close>: the typed read. The object passed in is
  empty, so the result is the record read or the error.
\<close>

definition GetResourceCreator ::
  "NamespacedName \<Rightarrow> Cluster \<Rightarrow> (error + ResourceCreator) \<times> Cluster" where
  "GetResourceCreator key s =
     (case invoke (Call VerbGet (Parent key)) s of
        (Some err, s') \<Rightarrow> (Inl err, s')
      | (None, s') \<Rightarrow>
          (case parents s' key of
             None \<Rightarrow> (Inl NotFound, s')
           | Some rc \<Rightarrow> (Inr rc, s')))"

text \<open>
  \<^verbatim>\<open>r.Get(ctx, key, obj)\<close> on an \<^verbatim>\<open>Unstructured\<close>: the type to read is the
  one \<open>obj\<close> carries, the namespace and name are those of \<open>key\<close>. On success
  the client decodes the response into \<open>obj\<close>, which from then on holds the stored
  record in place of what it held before (the contract that line 60 of the controller
  relies on when it reads the parent into an empty object); on an error \<open>obj\<close> is
  untouched. The result is the error and the object as the caller finds it afterwards.
\<close>

definition Get ::
  "NamespacedName \<Rightarrow> Unstructured \<Rightarrow> Cluster \<Rightarrow> (error option \<times> Unstructured) \<times> Cluster" where
  "Get key obj s =
     (let k = (GetAPIVersion obj, GetKind obj, key) in
      case invoke (Call VerbGet (Child k)) s of
        (Some err, s') \<Rightarrow> ((Some err, obj), s')
      | (None, s') \<Rightarrow>
          (case objects s' k of
             None \<Rightarrow> ((Some NotFound, obj), s')
           | Some stored \<Rightarrow> ((None, stored), s')))"

text \<open>\<^verbatim>\<open>r.Create(ctx, obj)\<close>: refused when a record of that identity exists.\<close>

definition Create :: "Unstructured \<Rightarrow> Cluster \<Rightarrow> error option \<times> Cluster" where
  "Create obj s =
     (let k = objectKeyOf obj in
      case invoke (Call VerbCreate (Child k)) s of
        (Some err, s') \<Rightarrow> (Some err, s')
      | (None, s') \<Rightarrow>
          (case objects s' k of
             Some stored \<Rightarrow> (Some AlreadyExists, s')
           | None \<Rightarrow> (None, s'\<lparr>objects := (objects s')(k \<mapsto> obj)\<rparr>)))"

text \<open>\<^verbatim>\<open>r.Update(ctx, obj)\<close>: replaces the whole record of that identity, which must exist.\<close>

definition Update :: "Unstructured \<Rightarrow> Cluster \<Rightarrow> error option \<times> Cluster" where
  "Update obj s =
     (let k = objectKeyOf obj in
      case invoke (Call VerbUpdate (Child k)) s of
        (Some err, s') \<Rightarrow> (Some err, s')
      | (None, s') \<Rightarrow>
          (case objects s' k of
             None \<Rightarrow> (Some NotFound, s')
           | Some stored \<Rightarrow> (None, s'\<lparr>objects := (objects s')(k \<mapsto> obj)\<rparr>)))"

subsection \<open>Reconcile\<close>

text \<open>
  Lines 87 to 106 of the controller: the child record built for one entry of
  \<^verbatim>\<open>Spec.Resources\<close>, from the decoded payload \<open>internalSpec\<close>. The calls are in
  the order of the source: the content first, then the type, the name, the namespace of
  the request, and the controller reference to the \<^verbatim>\<open>ResourceCreator\<close>.
  \<open>GroupVersion\<close> stands for \<^verbatim>\<open>creatorv1.GroupVersion\<close>, a variable of the API
  package that is declared outside the given sources.
\<close>

definition materialize ::
  "GroupVersion \<Rightarrow> Request \<Rightarrow> ResourceCreator \<Rightarrow> ResourceSpec \<Rightarrow> jobject \<Rightarrow> Unstructured" where
  "materialize GroupVersion req resourceCreator resourceSpec internalSpec =
     (let resource = [];
          spec = [(''spec'', JObject internalSpec)];
          resource = SetUnstructuredContent spec resource;
          resource = SetGroupVersionKind
            \<lparr>GroupVersionKind.Group = ResourceSpec.Group resourceSpec,
             GroupVersionKind.Version = ResourceSpec.Version resourceSpec,
             GroupVersionKind.Kind = ResourceSpec.Kind resourceSpec\<rparr> resource;
          resource = SetName (ResourceSpec.Name resourceSpec) resource;
          resource = SetNamespace (NamespacedName.Namespace (NamespacedName req)) resource;
          ownerRefs = [NewControllerRef resourceCreator
            \<lparr>GroupVersionKind.Group = GroupVersion.Group GroupVersion,
             GroupVersionKind.Version = GroupVersion.Version GroupVersion,
             GroupVersionKind.Kind = ''ResourceCreator''\<rparr>]
      in SetOwnerReferences ownerRefs resource)"

text \<open>
  The body of the loop (lines 69 to 129) for one entry. \<open>unmarshal\<close> stands for
  \<^verbatim>\<open>json.Unmarshal\<close> into a \<^verbatim>\<open>map[string]any\<close>: the decoded mapping or the
  error (a \<^verbatim>\<open>nil\<close> map, which the text \<^verbatim>\<open>null\<close> decodes to, counts as the empty
  mapping). The three tests on \<open>err\<close> are those of lines 109, 114 and 122.
\<close>

definition reconcileResource ::
  "(string \<Rightarrow> error + jobject) \<Rightarrow> GroupVersion \<Rightarrow> Request \<Rightarrow> ResourceCreator \<Rightarrow>
   ResourceSpec \<Rightarrow> Cluster \<Rightarrow> error option \<times> Cluster" where
  "reconcileResource unmarshal GroupVersion req resourceCreator resourceSpec s =
     (case unmarshal (ResourceSpec.Spec resourceSpec) of
        Inl err \<Rightarrow> (Some err, s)
      | Inr internalSpec \<Rightarrow>
          (case Get \<lparr>NamespacedName.Namespace = NamespacedName.Namespace (NamespacedName req),
                     NamespacedName.Name = ResourceSpec.Name resourceSpec\<rparr>
                    (materialize GroupVersion req resourceCreator resourceSpec internalSpec) s of
             ((err, resource), s') \<Rightarrow>
               if err \<noteq> None \<and> IgnoreNotFound err \<noteq> None then (err, s')
               else if err \<noteq> None \<and> IgnoreNotFound err = None
               then Create (SetResourceVersion [] resource) s'
               else Update resource s'))"

text \<open>The loop over \<^verbatim>\<open>Spec.Resources\<close>: the first error ends it.\<close>

fun reconcileResources ::
  "(string \<Rightarrow> error + jobject) \<Rightarrow> GroupVersion \<Rightarrow> Request \<Rightarrow> ResourceCreator \<Rightarrow>
   ResourceSpec list \<Rightarrow> Cluster \<Rightarrow> error option \<times> Cluster" where
  "reconcileResources unmarshal GroupVersion req resourceCreator [] s = (None, s)"
| "reconcileResources unmarshal GroupVersion req resourceCreator (resourceSpec # rest) s =
     (case reconcileResource unmarshal GroupVersion req resourceCreator resourceSpec s of
        (Some err, s') \<Rightarrow> (Some err, s')
      | (None, s') \<Rightarrow> reconcileResources unmarshal GroupVersion req resourceCreator rest s')"

definition Reconcile ::
  "(string \<Rightarrow> error + jobject) \<Rightarrow> GroupVersion \<Rightarrow> Request \<Rightarrow> Cluster \<Rightarrow>
   (Result \<times> error option) \<times> Cluster" where
  "Reconcile unmarshal GroupVersion req s =
     (case GetResourceCreator (NamespacedName req) s of
        (Inl err, s') \<Rightarrow>
          ((\<lparr>Requeue = False, RequeueAfter = 0\<rparr>, IgnoreNotFound (Some err)), s')
      | (Inr resourceCreator, s') \<Rightarrow>
          (case reconcileResources unmarshal GroupVersion req resourceCreator
                  (Resources (ResourceCreator.Spec resourceCreator)) s' of
             (err, s'') \<Rightarrow> ((\<lparr>Requeue = False, RequeueAfter = 0\<rparr>, err), s'')))"

subsection \<open>The event handler of the watches\<close>

text \<open>
  \<^verbatim>\<open>dynamicHandler\<close> (lines 139 to 153); the watches hand it \<^verbatim>\<open>Unstructured\<close>
  objects. A \<^verbatim>\<open>nil\<close> slice is the empty list.
\<close>

definition dynamicHandler :: "Unstructured \<Rightarrow> Request list" where
  "dynamicHandler obj =
     (case GetControllerOf obj of
        None \<Rightarrow> []
      | Some ownerRef \<Rightarrow>
          if OwnerReference.Kind ownerRef = ''ResourceCreator''
          then [\<lparr>NamespacedName =
                   \<lparr>NamespacedName.Namespace = GetNamespace obj,
                    NamespacedName.Name = OwnerReference.Name ownerRef\<rparr>\<rparr>]
          else [])"

section \<open>Notions used in the properties\<close>

text \<open>The address in the store of the child that an entry of \<^verbatim>\<open>Spec.Resources\<close> names.\<close>

definition childKey :: "Request \<Rightarrow> ResourceSpec \<Rightarrow> ObjectKey" where
  "childKey req d =
     (GroupVersion_String
        \<lparr>GroupVersion.Group = ResourceSpec.Group d, GroupVersion.Version = ResourceSpec.Version d\<rparr>,
      ResourceSpec.Kind d,
      \<lparr>NamespacedName.Namespace = NamespacedName.Namespace (NamespacedName req),
       NamespacedName.Name = ResourceSpec.Name d\<rparr>)"

text \<open>
  Every record is stored under the identity it states about itself, as an API server
  guarantees.
\<close>

definition storeConsistent :: "Cluster \<Rightarrow> bool" where
  "storeConsistent s = (\<forall>k obj. objects s k = Some obj \<longrightarrow> objectKeyOf obj = k)"

text \<open>What the environment does to the next call: \<^term>\<open>None\<close> lets it through.\<close>

definition nextFault :: "Cluster \<Rightarrow> error option" where
  "nextFault s = (case faults s of [] \<Rightarrow> None | fault # rest \<Rightarrow> fault)"

text \<open>A get, a create or an update of a child record.\<close>

definition childCall :: "call \<Rightarrow> bool" where
  "childCall c =
     (case c of
        Call v (Child k) \<Rightarrow> v = VerbGet \<or> v = VerbCreate \<or> v = VerbUpdate
      | Call v (Parent key) \<Rightarrow> False)"

subsection \<open>A sample cluster\<close>

text \<open>
  The scenario of the specification: the \<^verbatim>\<open>ResourceCreator\<close> \<open>demo\<close> in the
  namespace \<open>default\<close>, asking for the Deployment \<open>web\<close> (and, in some runs, for
  the Job \<open>load\<close>), in a store with no other record and no fault pending. The sample
  decoder knows two payloads and rejects every other text.
\<close>

definition sampleUnmarshal :: "string \<Rightarrow> error + jobject" where
  "sampleUnmarshal raw =
     (if raw = ''{replicas: 2}'' then Inr [(''replicas'', JNumber 2)]
      else if raw = ''{replicas: 3}'' then Inr [(''replicas'', JNumber 3)]
      else Inl (Failure ''cannot unmarshal''))"

definition sampleGroupVersion :: GroupVersion where
  "sampleGroupVersion =
     \<lparr>GroupVersion.Group = ''creator.m3.io'', GroupVersion.Version = ''v1''\<rparr>"

definition webSpec :: "string \<Rightarrow> ResourceSpec" where
  "webSpec raw =
     \<lparr>ResourceSpec.Group = ''apps'', ResourceSpec.Version = ''v1'',
      ResourceSpec.Kind = ''Deployment'', ResourceSpec.Name = ''web'',
      ResourceSpec.Spec = raw\<rparr>"

definition jobSpec :: "string \<Rightarrow> ResourceSpec" where
  "jobSpec raw =
     \<lparr>ResourceSpec.Group = ''batch'', ResourceSpec.Version = ''v1'',
      ResourceSpec.Kind = ''Job'', ResourceSpec.Name = ''load'',
      ResourceSpec.Spec = raw\<rparr>"

definition demoParent :: "ResourceSpec list \<Rightarrow> ResourceCreator" where
  "demoParent resources =
     \<lparr>ObjectMeta =
        \<lparr>ObjectMeta.Name = ''demo'', ObjectMeta.Namespace = ''default'',
         ObjectMeta.UID = ''uid-1''\<rparr>,
      ResourceCreator.Spec = \<lparr>Resources = resources\<rparr>,
      ResourceCreator.Status =
        \<lparr>Resource =
           \<lparr>ResourceSpec.Group = [], ResourceSpec.Version = [], ResourceSpec.Kind = [],
            ResourceSpec.Name = [], ResourceSpec.Spec = []\<rparr>,
         ResourceCreatorStatus.Status = [], LastUpdateTime = 0, Message = []\<rparr>\<rparr>"

definition demoKey :: NamespacedName where
  "demoKey = \<lparr>NamespacedName.Namespace = ''default'', NamespacedName.Name = ''demo''\<rparr>"

definition demoRequest :: Request where
  "demoRequest = \<lparr>NamespacedName = demoKey\<rparr>"

definition demoCluster :: "ResourceSpec list \<Rightarrow> Cluster" where
  "demoCluster resources =
     \<lparr>parents = [demoKey \<mapsto> demoParent resources], objects = Map.empty,
      faults = [], calls = []\<rparr>"

definition webKey :: ObjectKey where
  "webKey = (''apps/v1'', ''Deployment'',
     \<lparr>NamespacedName.Namespace = ''default'', NamespacedName.Name = ''web''\<rparr>)"

definition jobKey :: ObjectKey where
  "jobKey = (''batch/v1'', ''Job'',
     \<lparr>NamespacedName.Namespace = ''default'', NamespacedName.Name = ''load''\<rparr>)"

text \<open>
  The sample cluster after one cycle has created the Deployment \<open>web\<close> with two
  replicas, and the author of \<open>demo\<close> has then asked for three.
\<close>

definition staleCluster :: Cluster where
  "staleCluster =
     (snd (Reconcile sampleUnmarshal sampleGroupVersion demoRequest
             (demoCluster [webSpec ''{replicas: 2}''])))
       \<lparr>parents := [demoKey \<mapsto> demoParent [webSpec ''{replicas: 3}'']]\<rparr>"

text \<open>The Deployment \<open>web\<close> as the first cycle creates it, with two replicas.\<close>

definition webChild :: Unstructured where
  "webChild = materialize sampleGroupVersion demoRequest
     (demoParent [webSpec ''{replicas: 2}'']) (webSpec ''{replicas: 2}'')
     [(''replicas'', JNumber 2)]"

section \<open>Properties\<close>

subsection \<open>The child record built for an entry\<close>

text \<open>The content, written out.\<close>

lemma materialize_content:
  "materialize gv req rc d m =
     [(''spec'', JObject m),
      (''apiVersion'', JString (GroupVersion_String
          \<lparr>GroupVersion.Group = ResourceSpec.Group d, GroupVersion.Version = ResourceSpec.Version d\<rparr>)),
      (''kind'', JString (ResourceSpec.Kind d)),
      (''metadata'', JObject (
         (if ResourceSpec.Name d = [] then [] else [(''name'', JString (ResourceSpec.Name d))]) @
         (if NamespacedName.Namespace (NamespacedName req) = [] then []
          else [(''namespace'', JString (NamespacedName.Namespace (NamespacedName req)))]) @
         [(''ownerReferences'',
            JArray [JObject (ownerReferenceToUnstructured (NewControllerRef rc
     \<lparr>GroupVersionKind.Group = GroupVersion.Group gv,
      GroupVersionKind.Version = GroupVersion.Version gv,
      GroupVersionKind.Kind = ''ResourceCreator''\<rparr>))])]))]"
  by (simp add: materialize_def SetUnstructuredContent_def SetGroupVersionKind_def
      SetAPIVersion_def SetKind_def SetName_def SetNamespace_def SetOwnerReferences_def
      GroupVersionKind_GroupVersion_def)

lemma materialize_GetAPIVersion:
  "GetAPIVersion (materialize gv req rc d m) = GroupVersion_String
          \<lparr>GroupVersion.Group = ResourceSpec.Group d, GroupVersion.Version = ResourceSpec.Version d\<rparr>"
  by (simp add: materialize_content GetAPIVersion_def getNestedString_def)

lemma materialize_GetKind:
  "GetKind (materialize gv req rc d m) = ResourceSpec.Kind d"
  by (simp add: materialize_content GetKind_def getNestedString_def)

lemma materialize_GetName:
  "GetName (materialize gv req rc d m) = ResourceSpec.Name d"
  by (simp add: materialize_content GetName_def getNestedString_def)

lemma materialize_GetNamespace:
  "GetNamespace (materialize gv req rc d m) = NamespacedName.Namespace (NamespacedName req)"
  by (simp add: materialize_content GetNamespace_def getNestedString_def)

lemma extract_ownerReferenceToUnstructured:
  "extractOwnerReference (ownerReferenceToUnstructured r) = r"
  by (cases r) (simp add: extractOwnerReference_def ownerReferenceToUnstructured_def
      getNestedString_def NestedBool_def split: option.splits)

lemma materialize_GetOwnerReferences:
  "GetOwnerReferences (materialize gv req rc d m) = [NewControllerRef rc
     \<lparr>GroupVersionKind.Group = GroupVersion.Group gv,
      GroupVersionKind.Version = GroupVersion.Version gv,
      GroupVersionKind.Kind = ''ResourceCreator''\<rparr>]"
  by (simp add: materialize_content GetOwnerReferences_def extract_ownerReferenceToUnstructured)

lemma materialize_SetResourceVersion:
  "SetResourceVersion [] (materialize gv req rc d m) = materialize gv req rc d m"
  by (simp add: materialize_content SetResourceVersion_def)

lemma materialize_keys:
  "fst ` set (materialize gv req rc d m) = {''spec'', ''apiVersion'', ''kind'', ''metadata''}"
  by (simp add: materialize_content)

lemma materialize_objectKeyOf:
  "objectKeyOf (materialize gv req rc d m) = childKey req d"
  by (simp add: objectKeyOf_def childKey_def materialize_GetAPIVersion materialize_GetKind
      materialize_GetName materialize_GetNamespace)

subsection \<open>What the calls of the client change\<close>

lemma invoke_frame:
  assumes "invoke c s = (f, s')"
  shows "parents s' = parents s" "objects s' = objects s" "calls s' = calls s @ [c]"
    "f = nextFault s" "faults s' = tl (faults s)"
  using assms by (auto simp: invoke_def nextFault_def split: list.splits)

lemma Get_cases:
  assumes "Get key obj s = ((err, obj'), s')"
  shows "parents s' = parents s \<and> objects s' = objects s
       \<and> calls s' = calls s @ [Call VerbGet (Child (GetAPIVersion obj, GetKind obj, key))]
       \<and> faults s' = tl (faults s)
       \<and> (case nextFault s of
             Some e \<Rightarrow> err = Some e \<and> obj' = obj
           | None \<Rightarrow>
              (case objects s (GetAPIVersion obj, GetKind obj, key) of
                 None \<Rightarrow> err = Some NotFound \<and> obj' = obj
               | Some stored \<Rightarrow> err = None \<and> obj' = stored))"
  using assms
  by (auto simp: Get_def Let_def invoke_def nextFault_def split: list.splits option.splits)

lemma Create_cases:
  assumes "Create obj s = (err, s')"
  shows "parents s' = parents s
       \<and> calls s' = calls s @ [Call VerbCreate (Child (objectKeyOf obj))]
       \<and> faults s' = tl (faults s)
       \<and> (case nextFault s of
             Some e \<Rightarrow> err = Some e \<and> objects s' = objects s
           | None \<Rightarrow>
              (case objects s (objectKeyOf obj) of
                 None \<Rightarrow> err = None \<and> objects s' = (objects s)(objectKeyOf obj \<mapsto> obj)
               | Some stored \<Rightarrow> err = Some AlreadyExists \<and> objects s' = objects s))"
  using assms
  by (auto simp: Create_def Let_def invoke_def nextFault_def split: list.splits option.splits)

lemma Update_cases:
  assumes "Update obj s = (err, s')"
  shows "parents s' = parents s
       \<and> calls s' = calls s @ [Call VerbUpdate (Child (objectKeyOf obj))]
       \<and> faults s' = tl (faults s)
       \<and> (case nextFault s of
             Some e \<Rightarrow> err = Some e \<and> objects s' = objects s
           | None \<Rightarrow>
              (case objects s (objectKeyOf obj) of
                 None \<Rightarrow> err = Some NotFound \<and> objects s' = objects s
               | Some stored \<Rightarrow> err = None \<and> objects s' = (objects s)(objectKeyOf obj \<mapsto> obj)))"
  using assms
  by (auto simp: Update_def Let_def invoke_def nextFault_def split: list.splits option.splits)

subsection \<open>The body of the loop and the loop\<close>

text \<open>The three ways the body of the loop ends after a successful decode.\<close>

lemma reconcileResource_unfold:
  assumes "unmarshal (ResourceSpec.Spec d) = Inr m"
    and "Get \<lparr>NamespacedName.Namespace = NamespacedName.Namespace (NamespacedName req),
              NamespacedName.Name = ResourceSpec.Name d\<rparr> (materialize gv req rc d m) s
         = ((e, obj), s1)"
  shows "reconcileResource unmarshal gv req rc d s =
     (case e of
        None \<Rightarrow> Update obj s1
      | Some NotFound \<Rightarrow> Create (SetResourceVersion [] obj) s1
      | Some other \<Rightarrow> (e, s1))"
  using assms
  by (auto simp: reconcileResource_def IgnoreNotFound_def split: option.splits error.splits)

lemma reconcileResource_frame:
  assumes "reconcileResource unmarshal gv req rc d s = (err, s')"
  shows "parents s' = parents s \<and> dom (objects s) \<subseteq> dom (objects s')
       \<and> (\<exists>new. calls s' = calls s @ new \<and> list_all childCall new)"
proof (cases "unmarshal (ResourceSpec.Spec d)")
  case (Inl a)
  with assms have "s' = s" by (simp add: reconcileResource_def)
  then show ?thesis by simp
next
  case (Inr m)
  obtain e obj s1 where g:
    "Get \<lparr>NamespacedName.Namespace = NamespacedName.Namespace (NamespacedName req),
          NamespacedName.Name = ResourceSpec.Name d\<rparr> (materialize gv req rc d m) s
     = ((e, obj), s1)"
    by (metis prod.exhaust)
  note G = Get_cases[OF g]
  note U = reconcileResource_unfold[where unmarshal=unmarshal, OF Inr g]
  show ?thesis
  proof (cases e)
    case None
    with U assms have u: "Update obj s1 = (err, s')" by simp
    from Update_cases[OF u] G show ?thesis
      by (auto simp: childCall_def split: option.splits)
  next
    case (Some x)
    show ?thesis
    proof (cases "x = NotFound")
      case True
      with U assms Some have c: "Create (SetResourceVersion [] obj) s1 = (err, s')" by simp
      from Create_cases[OF c] G show ?thesis
        by (auto simp: childCall_def split: option.splits)
    next
      case False
      with U assms Some have "s' = s1" by (cases x) auto
      with G show ?thesis by (auto simp: childCall_def)
    qed
  qed
qed

lemma reconcileResources_frame:
  assumes "reconcileResources unmarshal gv req rc ds s = (err, s')"
  shows "parents s' = parents s \<and> dom (objects s) \<subseteq> dom (objects s')
       \<and> (\<exists>new. calls s' = calls s @ new \<and> list_all childCall new)"
  using assms
proof (induction ds arbitrary: s)
  case Nil
  then show ?case by simp
next
  case (Cons d ds)
  obtain e1 s1 where step: "reconcileResource unmarshal gv req rc d s = (e1, s1)"
    by (metis prod.exhaust)
  note F = reconcileResource_frame[OF step]
  show ?case
  proof (cases e1)
    case None
    with Cons.prems step have "reconcileResources unmarshal gv req rc ds s1 = (err, s')"
      by simp
    from Cons.IH[OF this] obtain new2 where
      I: "parents s' = parents s1" "dom (objects s1) \<subseteq> dom (objects s')"
         "calls s' = calls s1 @ new2" "list_all childCall new2"
      by blast
    from F obtain new1 where
      J: "parents s1 = parents s" "dom (objects s) \<subseteq> dom (objects s1)"
         "calls s1 = calls s @ new1" "list_all childCall new1"
      by blast
    from I J have "calls s' = calls s @ (new1 @ new2)" "list_all childCall (new1 @ new2)"
      by simp_all
    moreover from I J have "parents s' = parents s" by simp
    moreover from J(2) I(2) have "dom (objects s) \<subseteq> dom (objects s')"
      by (rule subset_trans)
    ultimately show ?thesis by blast
  next
    case (Some x)
    with Cons.prems step have "s' = s1" by simp
    with F show ?thesis by simp
  qed
qed

lemma GetResourceCreator_cases:
  assumes "GetResourceCreator key s = (r, s')"
  shows "parents s' = parents s \<and> objects s' = objects s
       \<and> calls s' = calls s @ [Call VerbGet (Parent key)]
       \<and> faults s' = tl (faults s)
       \<and> (case nextFault s of
             Some e \<Rightarrow> r = Inl e
           | None \<Rightarrow> (case parents s key of None \<Rightarrow> r = Inl NotFound | Some rc \<Rightarrow> r = Inr rc))"
  using assms
  by (auto simp: GetResourceCreator_def invoke_def nextFault_def split: list.splits option.splits)

lemma Reconcile_frame:
  assumes "Reconcile unmarshal gv req s = ((res, err), s')"
  shows "res = \<lparr>Requeue = False, RequeueAfter = 0\<rparr> \<and> parents s' = parents s
       \<and> dom (objects s) \<subseteq> dom (objects s')
       \<and> (\<exists>new. calls s' = calls s @ Call VerbGet (Parent (NamespacedName req)) # new
               \<and> list_all childCall new)"
proof -
  obtain r s1 where g: "GetResourceCreator (NamespacedName req) s = (r, s1)"
    by (metis prod.exhaust)
  note G = GetResourceCreator_cases[OF g]
  show ?thesis
  proof (cases r)
    case (Inl e)
    with assms g have "s' = s1" "res = \<lparr>Requeue = False, RequeueAfter = 0\<rparr>"
      by (simp_all add: Reconcile_def)
    with G show ?thesis by simp
  next
    case (Inr rc)
    obtain e2 s2 where l: "reconcileResources unmarshal gv req rc
        (Resources (ResourceCreator.Spec rc)) s1 = (e2, s2)"
      by (metis prod.exhaust)
    with assms g Inr have "s' = s2" "res = \<lparr>Requeue = False, RequeueAfter = 0\<rparr>"
      by (simp_all add: Reconcile_def)
    with reconcileResources_frame[OF l] G show ?thesis by auto
  qed
qed

lemma reconcileResources_append:
  "reconcileResources unmarshal gv req rc (pre @ post) s =
     (case reconcileResources unmarshal gv req rc pre s of
        (Some e, s') \<Rightarrow> (Some e, s')
      | (None, s') \<Rightarrow> reconcileResources unmarshal gv req rc post s')"
  by (induction pre arbitrary: s) (auto split: prod.splits option.splits)

lemma reconcileResources_decode_error:
  assumes "unmarshal (ResourceSpec.Spec d) = Inl err"
  shows "reconcileResources unmarshal gv req rc (d # post) s = (Some err, s)"
  using assms by (simp add: reconcileResource_def)

lemma materialize_Get_key:
  "(GetAPIVersion (materialize gv req rc d m), GetKind (materialize gv req rc d m),
    \<lparr>NamespacedName.Namespace = NamespacedName.Namespace (NamespacedName req),
     NamespacedName.Name = ResourceSpec.Name d\<rparr>) = childKey req d"
  by (simp add: childKey_def materialize_GetAPIVersion materialize_GetKind)

text \<open>A successful pass over an entry whose child is not in the store creates it.\<close>

lemma reconcileResource_creates:
  assumes ok: "reconcileResource unmarshal gv req rc d s = (None, s')"
    and absent: "objects s (childKey req d) = None"
  shows "\<exists>m. unmarshal (ResourceSpec.Spec d) = Inr m
           \<and> objects s' = (objects s)(childKey req d \<mapsto> materialize gv req rc d m)"
proof (cases "unmarshal (ResourceSpec.Spec d)")
  case (Inl a)
  with ok show ?thesis by (simp add: reconcileResource_def)
next
  case (Inr m)
  obtain e obj s1 where g:
    "Get \<lparr>NamespacedName.Namespace = NamespacedName.Namespace (NamespacedName req),
          NamespacedName.Name = ResourceSpec.Name d\<rparr> (materialize gv req rc d m) s
     = ((e, obj), s1)"
    by (metis prod.exhaust)
  note G = Get_cases[OF g, unfolded materialize_Get_key]
  note U = reconcileResource_unfold[where unmarshal=unmarshal, OF Inr g]
  from G absent have obj: "obj = materialize gv req rc d m" and e: "e \<noteq> None"
    and s1: "objects s1 = objects s"
    by (auto split: option.splits)
  from e obtain x where x: "e = Some x" by blast
  have "x = NotFound"
  proof (rule ccontr)
    assume "x \<noteq> NotFound"
    with U ok x show False by (cases x) auto
  qed
  with U ok x obj have c: "Create (materialize gv req rc d m) s1 = (None, s')"
    by (simp add: materialize_SetResourceVersion)
  from Create_cases[OF c] s1 absent
  have "objects s' = (objects s)(childKey req d \<mapsto> materialize gv req rc d m)"
    by (auto simp: materialize_objectKeyOf split: option.splits)
  with Inr show ?thesis by blast
qed

lemma reconcileResources_creates:
  assumes "reconcileResources unmarshal gv req rc ds s = (None, s')"
    and "distinct (map (childKey req) ds)"
    and "\<forall>d\<in>set ds. objects s (childKey req d) = None"
  shows "(\<forall>d\<in>set ds. \<exists>m. unmarshal (ResourceSpec.Spec d) = Inr m
            \<and> objects s' (childKey req d) = Some (materialize gv req rc d m))
       \<and> (\<forall>k. k \<notin> childKey req ` set ds \<longrightarrow> objects s' k = objects s k)"
  using assms
proof (induction ds arbitrary: s)
  case Nil
  then show ?case by simp
next
  case (Cons d ds)
  obtain e1 s1 where step: "reconcileResource unmarshal gv req rc d s = (e1, s1)"
    by (metis prod.exhaust)
  with Cons.prems(1) have e1: "e1 = None"
    and rest: "reconcileResources unmarshal gv req rc ds s1 = (None, s')"
    by (auto split: option.splits)
  from Cons.prems(3) have "objects s (childKey req d) = None" by simp
  from reconcileResource_creates[OF step[unfolded e1] this] obtain m where
    m: "unmarshal (ResourceSpec.Spec d) = Inr m"
    and s1: "objects s1 = (objects s)(childKey req d \<mapsto> materialize gv req rc d m)"
    by blast
  from Cons.prems(2) have dist: "distinct (map (childKey req) ds)"
    and fresh: "childKey req d \<notin> childKey req ` set ds" by simp_all
  have "\<forall>x\<in>set ds. objects s1 (childKey req x) = None"
  proof
    fix x assume x: "x \<in> set ds"
    with fresh have "childKey req x \<noteq> childKey req d" by (metis imageI)
    with Cons.prems(3) x s1 show "objects s1 (childKey req x) = None" by simp
  qed
  from Cons.IH[OF rest dist this]
  have IH1: "\<forall>x\<in>set ds. \<exists>m. unmarshal (ResourceSpec.Spec x) = Inr m
            \<and> objects s' (childKey req x) = Some (materialize gv req rc x m)"
    and IH2: "\<forall>k. k \<notin> childKey req ` set ds \<longrightarrow> objects s' k = objects s1 k"
    by blast+
  from IH2[rule_format, OF fresh] s1
  have "objects s' (childKey req d) = Some (materialize gv req rc d m)"
    by simp
  with m IH1 have A: "\<forall>x\<in>set (d # ds). \<exists>m. unmarshal (ResourceSpec.Spec x) = Inr m
            \<and> objects s' (childKey req x) = Some (materialize gv req rc x m)"
    by auto
  have B: "\<forall>k. k \<notin> childKey req ` set (d # ds) \<longrightarrow> objects s' k = objects s k"
  proof (intro allI impI)
    fix k assume "k \<notin> childKey req ` set (d # ds)"
    then have k: "k \<notin> childKey req ` set ds" "k \<noteq> childKey req d" by auto
    from IH2[rule_format, OF k(1)] s1 k(2) show "objects s' k = objects s k" by simp
  qed
  from A B show ?case by blast
qed

subsection \<open>Runs that meet no fault\<close>



lemma storeConsistent_calls [simp]:
  "storeConsistent (s\<lparr>calls := cs\<rparr>) = storeConsistent s"
  by (simp add: storeConsistent_def)




subsection \<open>Controller references\<close>

lemma GetControllerOfRefs_change_apiVersion:
  "GetControllerOfRefs (map (\<lambda>r. r\<lparr>APIVersion := f r\<rparr>) refs)
     = map_option (\<lambda>r. r\<lparr>APIVersion := f r\<rparr>) (GetControllerOfRefs refs)"
  by (induction refs) auto

lemma GetControllerOfRefs_Some:
  "GetControllerOfRefs refs = Some ref \<Longrightarrow> ref \<in> set refs \<and> Controller ref = Some True"
  by (induction refs) (auto split: if_splits)

lemma GetControllerOfRefs_None:
  "GetControllerOfRefs refs = None \<longleftrightarrow> (\<forall>ref\<in>set refs. Controller ref \<noteq> Some True)"
  by (induction refs) auto

lemma materialize_GetControllerOf:
  "GetControllerOf (materialize gv req rc d m) = Some (NewControllerRef rc
     \<lparr>GroupVersionKind.Group = GroupVersion.Group gv,
      GroupVersionKind.Version = GroupVersion.Version gv,
      GroupVersionKind.Kind = ''ResourceCreator''\<rparr>)"
  by (simp add: GetControllerOf_def materialize_GetOwnerReferences NewControllerRef_def)

lemma materialize_spec:
  "map_of (materialize gv req rc d m) ''spec'' = Some (JObject m)"
  by (simp add: materialize_content)

subsection \<open>The read of the parent\<close>

lemma GetResourceCreator_present:
  assumes "parents s key = Some rc" and "nextFault s = None"
  shows "\<exists>s1. GetResourceCreator key s = (Inr rc, s1) \<and> objects s1 = objects s
           \<and> parents s1 = parents s \<and> faults s1 = tl (faults s)
           \<and> calls s1 = calls s @ [Call VerbGet (Parent key)]"
proof -
  obtain r s1 where g: "GetResourceCreator key s = (r, s1)" by (metis prod.exhaust)
  from GetResourceCreator_cases[OF g] assms g show ?thesis by simp
qed

subsection \<open>Runs on the sample cluster\<close>

lemmas sample_defs = sampleUnmarshal_def sampleGroupVersion_def webSpec_def jobSpec_def
  demoParent_def demoKey_def demoRequest_def demoCluster_def webKey_def jobKey_def

lemmas store_defs = Reconcile_def GetResourceCreator_def reconcileResource_def Get_def
  Create_def Update_def invoke_def IgnoreNotFound_def Let_def objectKeyOf_def
  materialize_content materialize_GetAPIVersion materialize_GetKind
  GetAPIVersion_def GetKind_def GetName_def GetNamespace_def getNestedString_def
  SetResourceVersion_def GroupVersion_String_def

lemma demo_run:
  "Reconcile sampleUnmarshal sampleGroupVersion demoRequest
      (demoCluster [webSpec ''{replicas: 2}''])
   = ((\<lparr>Requeue = False, RequeueAfter = 0\<rparr>, None),
      \<lparr>parents = [demoKey \<mapsto> demoParent [webSpec ''{replicas: 2}'']],
       objects = [webKey \<mapsto> webChild],
       faults = [],
       calls = [Call VerbGet (Parent demoKey), Call VerbGet (Child webKey),
                Call VerbCreate (Child webKey)]\<rparr>)"
  by (simp add: sample_defs webChild_def store_defs)

lemma staleCluster_eq:
  "staleCluster =
     \<lparr>parents = [demoKey \<mapsto> demoParent [webSpec ''{replicas: 3}'']],
      objects = [webKey \<mapsto> webChild],
      faults = [],
      calls = [Call VerbGet (Parent demoKey), Call VerbGet (Child webKey),
               Call VerbCreate (Child webKey)]\<rparr>"
  by (simp add: staleCluster_def demo_run)

lemma webChild_spec:
  "map_of webChild ''spec'' = Some (JObject [(''replicas'', JNumber 2)])"
  by (simp add: webChild_def materialize_spec)

lemma demo_run_two:
  "Reconcile sampleUnmarshal sampleGroupVersion demoRequest
      (demoCluster [webSpec ''{replicas: 2}'', jobSpec ''{replicas: 3}''])
   = ((\<lparr>Requeue = False, RequeueAfter = 0\<rparr>, None),
      \<lparr>parents = [demoKey \<mapsto> demoParent [webSpec ''{replicas: 2}'', jobSpec ''{replicas: 3}'']],
       objects = [webKey \<mapsto> materialize sampleGroupVersion demoRequest
            (demoParent [webSpec ''{replicas: 2}'', jobSpec ''{replicas: 3}''])
            (webSpec ''{replicas: 2}'') [(''replicas'', JNumber 2)],
          jobKey \<mapsto> materialize sampleGroupVersion demoRequest
            (demoParent [webSpec ''{replicas: 2}'', jobSpec ''{replicas: 3}''])
            (jobSpec ''{replicas: 3}'') [(''replicas'', JNumber 3)]],
       faults = [],
       calls = [Call VerbGet (Parent demoKey), Call VerbGet (Child webKey),
                Call VerbCreate (Child webKey), Call VerbGet (Child jobKey),
                Call VerbCreate (Child jobKey)]\<rparr>)"
  by (simp add: sample_defs store_defs)

section \<open>The claims\<close>

text \<open>
  C1 says that after a successful \<^verbatim>\<open>Reconcile\<close> over N entries with valid payloads
  exactly N child records exist, each matching its entry and owned by the parent. As
  stated this fails: with the entry for the Deployment \<open>web\<close> listed twice (N = 2, both
  payloads valid) \<^verbatim>\<open>Reconcile\<close> succeeds and the store holds the one record \<open>web\<close>.
\<close>

theorem C1_duplicate_descriptors:
  "length (Resources (ResourceCreator.Spec
       (demoParent [webSpec ''{replicas: 2}'', webSpec ''{replicas: 2}'']))) = 2
   \<and> sampleUnmarshal (ResourceSpec.Spec (webSpec ''{replicas: 2}''))
       = Inr [(''replicas'', JNumber 2)]
   \<and> snd (fst (Reconcile sampleUnmarshal sampleGroupVersion demoRequest
         (demoCluster [webSpec ''{replicas: 2}'', webSpec ''{replicas: 2}'']))) = None
   \<and> dom (objects (snd (Reconcile sampleUnmarshal sampleGroupVersion demoRequest
         (demoCluster [webSpec ''{replicas: 2}'', webSpec ''{replicas: 2}''])))) = {webKey}"
  by (simp add: sample_defs store_defs)

text \<open>
  C1, amended: when the parent record is fetched, its N entries name pairwise different
  children (type, namespace, name), none of which is in the store before the call, and
  \<^verbatim>\<open>Reconcile\<close> returns success, then the store holds exactly N records more than
  before, every other record is as it was, and for each entry the payload decodes to a
  mapping \<open>m\<close> and the record at the entry's address has the entry's API version,
  kind and name, the content \<open>m\<close> under \<open>spec\<close>, and the controller reference to
  the parent. Nothing is said about entries whose child is already there.
\<close>

theorem C1_children_created:
  assumes "parents s (NamespacedName req) = Some rc" and "nextFault s = None"
    and "distinct (map (childKey req) (Resources (ResourceCreator.Spec rc)))"
    and "\<forall>d\<in>set (Resources (ResourceCreator.Spec rc)). objects s (childKey req d) = None"
    and "snd (fst (Reconcile unmarshal gv req s)) = None"
  shows "card (dom (objects (snd (Reconcile unmarshal gv req s))) - dom (objects s))
           = length (Resources (ResourceCreator.Spec rc))
       \<and> (\<forall>k. k \<notin> childKey req ` set (Resources (ResourceCreator.Spec rc))
              \<longrightarrow> objects (snd (Reconcile unmarshal gv req s)) k = objects s k)
       \<and> (\<forall>d\<in>set (Resources (ResourceCreator.Spec rc)). \<exists>m child.
              unmarshal (ResourceSpec.Spec d) = Inr m
            \<and> objects (snd (Reconcile unmarshal gv req s)) (childKey req d) = Some child
            \<and> GetAPIVersion child =
                GroupVersion_String \<lparr>GroupVersion.Group = ResourceSpec.Group d,
                                     GroupVersion.Version = ResourceSpec.Version d\<rparr>
            \<and> GetKind child = ResourceSpec.Kind d
            \<and> GetName child = ResourceSpec.Name d
            \<and> map_of child ''spec'' = Some (JObject m)
            \<and> GetControllerOf child = Some (NewControllerRef rc
                 \<lparr>GroupVersionKind.Group = GroupVersion.Group gv,
                  GroupVersionKind.Version = GroupVersion.Version gv,
                  GroupVersionKind.Kind = ''ResourceCreator''\<rparr>))"
proof -
  let ?ds = "Resources (ResourceCreator.Spec rc)"
  from GetResourceCreator_present[OF assms(1,2)] obtain s0 where
    g0: "GetResourceCreator (NamespacedName req) s = (Inr rc, s0)"
    and s0: "objects s0 = objects s"
    by blast
  obtain e s1 where l: "reconcileResources unmarshal gv req rc ?ds s0 = (e, s1)"
    by (metis prod.exhaust)
  with g0 have R: "Reconcile unmarshal gv req s
      = ((\<lparr>Requeue = False, RequeueAfter = 0\<rparr>, e), s1)"
    by (simp add: Reconcile_def)
  with assms(5) have "e = None" by simp
  with l have l': "reconcileResources unmarshal gv req rc ?ds s0 = (None, s1)" by simp
  from assms(4) s0 have "\<forall>d\<in>set ?ds. objects s0 (childKey req d) = None" by simp
  note cr = reconcileResources_creates[OF l' assms(3) this, unfolded s0]
  from cr have made: "\<forall>d\<in>set ?ds. \<exists>m. unmarshal (ResourceSpec.Spec d) = Inr m
            \<and> objects s1 (childKey req d) = Some (materialize gv req rc d m)"
    by (rule conjunct1)
  from cr have others: "\<forall>k. k \<notin> childKey req ` set ?ds \<longrightarrow> objects s1 k = objects s k"
    by (rule conjunct2)
  have "dom (objects s1) - dom (objects s) = childKey req ` set ?ds"
  proof (rule set_eqI)
    fix k
    show "k \<in> dom (objects s1) - dom (objects s) \<longleftrightarrow> k \<in> childKey req ` set ?ds"
    proof (cases "k \<in> childKey req ` set ?ds")
      case True
      then obtain d where d: "d \<in> set ?ds" "k = childKey req d" by blast
      with made assms(4) have "objects s1 k \<noteq> None" "objects s k = None" by auto
      with True show ?thesis by (simp add: domIff)
    next
      case False
      with others have "objects s1 k = objects s k" by blast
      with False show ?thesis by (auto simp: dom_def)
    qed
  qed
  moreover have "card (childKey req ` set ?ds) = length ?ds"
    using assms(3) distinct_card[of "map (childKey req) ?ds"] by simp
  ultimately have A: "card (dom (objects s1) - dom (objects s)) = length ?ds" by simp
  have C: "\<forall>d\<in>set ?ds. \<exists>m child.
              unmarshal (ResourceSpec.Spec d) = Inr m
            \<and> objects s1 (childKey req d) = Some child
            \<and> GetAPIVersion child =
                GroupVersion_String \<lparr>GroupVersion.Group = ResourceSpec.Group d,
                                     GroupVersion.Version = ResourceSpec.Version d\<rparr>
            \<and> GetKind child = ResourceSpec.Kind d
            \<and> GetName child = ResourceSpec.Name d
            \<and> map_of child ''spec'' = Some (JObject m)
            \<and> GetControllerOf child = Some (NewControllerRef rc
                 \<lparr>GroupVersionKind.Group = GroupVersion.Group gv,
                  GroupVersionKind.Version = GroupVersion.Version gv,
                  GroupVersionKind.Kind = ''ResourceCreator''\<rparr>)"
  proof
    fix d assume "d \<in> set ?ds"
    with made obtain m where m: "unmarshal (ResourceSpec.Spec d) = Inr m"
      "objects s1 (childKey req d) = Some (materialize gv req rc d m)"
      by blast
    show "\<exists>m child.
              unmarshal (ResourceSpec.Spec d) = Inr m
            \<and> objects s1 (childKey req d) = Some child
            \<and> GetAPIVersion child =
                GroupVersion_String \<lparr>GroupVersion.Group = ResourceSpec.Group d,
                                     GroupVersion.Version = ResourceSpec.Version d\<rparr>
            \<and> GetKind child = ResourceSpec.Kind d
            \<and> GetName child = ResourceSpec.Name d
            \<and> map_of child ''spec'' = Some (JObject m)
            \<and> GetControllerOf child = Some (NewControllerRef rc
                 \<lparr>GroupVersionKind.Group = GroupVersion.Group gv,
                  GroupVersionKind.Version = GroupVersion.Version gv,
                  GroupVersionKind.Kind = ''ResourceCreator''\<rparr>)"
      apply (rule exI[of _ m])
      apply (rule exI[of _ "materialize gv req rc d m"])
      apply (simp only: m materialize_GetAPIVersion materialize_GetKind materialize_GetName
          materialize_spec materialize_GetControllerOf simp_thms)
      done
  qed
  from R have S: "snd (Reconcile unmarshal gv req s) = s1" by simp
  show ?thesis unfolding S by (rule conjI[OF A conjI[OF others C]])
qed

text \<open>The sample cluster with the two entries \<open>web\<close> and \<open>load\<close>: two records are created.\<close>

theorem C1_children_created_witness:
  "parents (demoCluster [webSpec ''{replicas: 2}'', jobSpec ''{replicas: 3}''])
       (NamespacedName demoRequest)
     = Some (demoParent [webSpec ''{replicas: 2}'', jobSpec ''{replicas: 3}''])
   \<and> nextFault (demoCluster [webSpec ''{replicas: 2}'', jobSpec ''{replicas: 3}'']) = None
   \<and> distinct (map (childKey demoRequest) [webSpec ''{replicas: 2}'', jobSpec ''{replicas: 3}''])
   \<and> snd (fst (Reconcile sampleUnmarshal sampleGroupVersion demoRequest
         (demoCluster [webSpec ''{replicas: 2}'', jobSpec ''{replicas: 3}'']))) = None
   \<and> card (dom (objects (snd (Reconcile sampleUnmarshal sampleGroupVersion demoRequest
           (demoCluster [webSpec ''{replicas: 2}'', jobSpec ''{replicas: 3}''])))) 
         - dom (objects (demoCluster [webSpec ''{replicas: 2}'', jobSpec ''{replicas: 3}''])))
       = 2"
proof -
  let ?ds = "[webSpec ''{replicas: 2}'', jobSpec ''{replicas: 3}'']"
  have h1: "parents (demoCluster ?ds) (NamespacedName demoRequest) = Some (demoParent ?ds)"
    by (simp add: sample_defs)
  have h2: "nextFault (demoCluster ?ds) = None"
    by (simp add: nextFault_def sample_defs)
  have h3: "distinct (map (childKey demoRequest)
      (Resources (ResourceCreator.Spec (demoParent ?ds))))"
    by (simp add: childKey_def sample_defs)
  have h4: "\<forall>d\<in>set (Resources (ResourceCreator.Spec (demoParent ?ds))).
      objects (demoCluster ?ds) (childKey demoRequest d) = None"
    by (simp add: sample_defs)
  have h5: "snd (fst (Reconcile sampleUnmarshal sampleGroupVersion demoRequest
      (demoCluster ?ds))) = None"
    by (simp add: demo_run_two)
  from C1_children_created[OF h1 h2 h3 h4 h5]
  have "card (dom (objects (snd (Reconcile sampleUnmarshal sampleGroupVersion demoRequest
           (demoCluster ?ds)))) - dom (objects (demoCluster ?ds)))
       = length (Resources (ResourceCreator.Spec (demoParent ?ds)))"
    by (rule conjunct1)
  then have "card (dom (objects (snd (Reconcile sampleUnmarshal sampleGroupVersion demoRequest
           (demoCluster ?ds)))) - dom (objects (demoCluster ?ds))) = 2"
    by (simp add: demoParent_def)
  with h1 h2 h3 h5 show ?thesis by (simp add: demoParent_def)
qed

text \<open>
  C2 says that a child that is already in the store is overwritten with the freshly built
  content, so that after the payload changes from two replicas to three the same record
  holds three. The code does not do that: line 108 reads the stored record into the very
  object that lines 87 to 106 built, and line 123 sends that object back. On the sample
  cluster \<^verbatim>\<open>Reconcile\<close> returns success, issues the update, and the Deployment
  \<open>web\<close> still holds the content of the first cycle, two replicas, although the
  payload of the entry decodes to three.
\<close>

theorem C2_update_writes_back_fetched:
  "fst (Reconcile sampleUnmarshal sampleGroupVersion demoRequest staleCluster)
     = (\<lparr>Requeue = False, RequeueAfter = 0\<rparr>, None)
   \<and> calls (snd (Reconcile sampleUnmarshal sampleGroupVersion demoRequest staleCluster))
       = calls staleCluster @ [Call VerbGet (Parent demoKey), Call VerbGet (Child webKey),
                               Call VerbUpdate (Child webKey)]
   \<and> objects (snd (Reconcile sampleUnmarshal sampleGroupVersion demoRequest staleCluster)) webKey
       = Some webChild
   \<and> map_of webChild ''spec'' = Some (JObject [(''replicas'', JNumber 2)])
   \<and> sampleUnmarshal (ResourceSpec.Spec (webSpec ''{replicas: 3}''))
       = Inr [(''replicas'', JNumber 3)]"
  by (simp add: staleCluster_eq webChild_spec)
    (simp add: sample_defs webChild_def store_defs)




text \<open>
  C4: let the parent be fetched and let its list be \<open>pre @ d # post\<close>, where every
  payload of \<open>pre\<close> decodes to a mapping and the payload of \<open>d\<close> does not. Then
  \<^verbatim>\<open>Reconcile\<close> returns an error (the decode error of \<open>d\<close> when all of
  \<open>pre\<close> was applied), and the store and the calls it leaves behind are those of
  working through \<open>pre\<close> alone: nothing is read, created or updated for \<open>d\<close> or
  for any entry of \<open>post\<close>.
\<close>

theorem C4_decode_error_aborts:
  assumes "GetResourceCreator (NamespacedName req) s = (Inr rc, s1)"
    and "Resources (ResourceCreator.Spec rc) = pre @ d # post"
    and "\<forall>x\<in>set pre. \<exists>m. unmarshal (ResourceSpec.Spec x) = Inr m"
    and "unmarshal (ResourceSpec.Spec d) = Inl err"
  shows "(\<exists>e. fst (Reconcile unmarshal gv req s) = (\<lparr>Requeue = False, RequeueAfter = 0\<rparr>, Some e)
            \<and> (fst (reconcileResources unmarshal gv req rc pre s1) = None \<longrightarrow> e = err))
       \<and> snd (Reconcile unmarshal gv req s)
           = snd (reconcileResources unmarshal gv req rc pre s1)"
proof -
  obtain e1 s2 where p: "reconcileResources unmarshal gv req rc pre s1 = (e1, s2)"
    by (metis prod.exhaust)
  have "reconcileResources unmarshal gv req rc (pre @ d # post) s1
      = (Some (case e1 of None \<Rightarrow> err | Some e \<Rightarrow> e), s2)"
    using p reconcileResources_decode_error[where unmarshal=unmarshal, OF assms(4)]
    by (simp add: reconcileResources_append split: option.splits)
  with assms(1,2) p show ?thesis
    by (auto simp: Reconcile_def)
qed

text \<open>
  The entries \<open>web\<close>, \<open>load\<close> with an undecodable payload, and \<open>load\<close> again:
  \<open>web\<close> is created, no call is made for \<open>load\<close>, the decode error is returned.
\<close>

theorem C4_decode_error_aborts_witness:
  "GetResourceCreator (NamespacedName demoRequest)
       (demoCluster [webSpec ''{replicas: 2}'', jobSpec ''replicas'', jobSpec ''{replicas: 3}''])
     = (Inr (demoParent [webSpec ''{replicas: 2}'', jobSpec ''replicas'', jobSpec ''{replicas: 3}'']),
        (demoCluster [webSpec ''{replicas: 2}'', jobSpec ''replicas'', jobSpec ''{replicas: 3}''])
          \<lparr>calls := [Call VerbGet (Parent demoKey)]\<rparr>)
   \<and> sampleUnmarshal (ResourceSpec.Spec (webSpec ''{replicas: 2}''))
       = Inr [(''replicas'', JNumber 2)]
   \<and> sampleUnmarshal (ResourceSpec.Spec (jobSpec ''replicas'')) = Inl (Failure ''cannot unmarshal'')
   \<and> snd (fst (Reconcile sampleUnmarshal sampleGroupVersion demoRequest
        (demoCluster [webSpec ''{replicas: 2}'', jobSpec ''replicas'', jobSpec ''{replicas: 3}''])))
       = Some (Failure ''cannot unmarshal'')
   \<and> calls (snd (Reconcile sampleUnmarshal sampleGroupVersion demoRequest
        (demoCluster [webSpec ''{replicas: 2}'', jobSpec ''replicas'', jobSpec ''{replicas: 3}''])))
       = [Call VerbGet (Parent demoKey), Call VerbGet (Child webKey),
          Call VerbCreate (Child webKey)]
   \<and> objects (snd (Reconcile sampleUnmarshal sampleGroupVersion demoRequest
        (demoCluster [webSpec ''{replicas: 2}'', jobSpec ''replicas'', jobSpec ''{replicas: 3}''])))
        jobKey = None"
proof -
  let ?ds = "[webSpec ''{replicas: 2}'', jobSpec ''replicas'', jobSpec ''{replicas: 3}'']"
  let ?s1 = "(demoCluster ?ds)\<lparr>calls := [Call VerbGet (Parent demoKey)]\<rparr>"
  have h1: "GetResourceCreator (NamespacedName demoRequest) (demoCluster ?ds)
      = (Inr (demoParent ?ds), ?s1)"
    by (simp add: sample_defs GetResourceCreator_def invoke_def)
  have h2: "Resources (ResourceCreator.Spec (demoParent ?ds))
      = [webSpec ''{replicas: 2}''] @ jobSpec ''replicas'' # [jobSpec ''{replicas: 3}'']"
    by (simp add: demoParent_def)
  have h3: "\<forall>x\<in>set [webSpec ''{replicas: 2}''].
      \<exists>m. sampleUnmarshal (ResourceSpec.Spec x) = Inr m"
    by (simp add: sample_defs)
  have h4: "sampleUnmarshal (ResourceSpec.Spec (jobSpec ''replicas''))
      = Inl (Failure ''cannot unmarshal'')"
    by (simp add: sample_defs)
  have pre: "reconcileResources sampleUnmarshal sampleGroupVersion demoRequest (demoParent ?ds)
      [webSpec ''{replicas: 2}''] ?s1
    = (None, (demoCluster ?ds)\<lparr>calls := [Call VerbGet (Parent demoKey),
          Call VerbGet (Child webKey), Call VerbCreate (Child webKey)],
        objects := [webKey \<mapsto> materialize sampleGroupVersion demoRequest (demoParent ?ds)
          (webSpec ''{replicas: 2}'') [(''replicas'', JNumber 2)]]\<rparr>)"
    by (simp add: sample_defs store_defs)
  from C4_decode_error_aborts[where gv=sampleGroupVersion, OF h1 h2 h3 h4] pre
  have "snd (fst (Reconcile sampleUnmarshal sampleGroupVersion demoRequest (demoCluster ?ds)))
      = Some (Failure ''cannot unmarshal'')"
    and "snd (Reconcile sampleUnmarshal sampleGroupVersion demoRequest (demoCluster ?ds))
      = (demoCluster ?ds)\<lparr>calls := [Call VerbGet (Parent demoKey),
          Call VerbGet (Child webKey), Call VerbCreate (Child webKey)],
        objects := [webKey \<mapsto> materialize sampleGroupVersion demoRequest (demoParent ?ds)
          (webSpec ''{replicas: 2}'') [(''replicas'', JNumber 2)]]\<rparr>"
    by auto
  moreover have "sampleUnmarshal (ResourceSpec.Spec (webSpec ''{replicas: 2}''))
       = Inr [(''replicas'', JNumber 2)]"
    by (simp add: sample_defs)
  ultimately show ?thesis using h1 h4 by (simp add: webKey_def jobKey_def)
qed

text \<open>
  C5: the child record built for an entry from its decoded payload \<open>m\<close> has the top
  level keys \<open>spec\<close>, \<open>apiVersion\<close>, \<open>kind\<close> and \<open>metadata\<close> and no other,
  holds exactly \<open>m\<close> under \<open>spec\<close>, has the API version and kind of the entry's
  group, version and kind, the entry's name, the namespace of the parent (the record
  fetched under the request), and the one owner reference that \<^verbatim>\<open>NewControllerRef\<close>
  makes for the parent. The type is set after the content; in the other order the
  content would replace it, and both type fields would read empty.
\<close>

theorem C5_materialized_child:
  assumes "ObjectMeta.Namespace (ObjectMeta rc) = NamespacedName.Namespace (NamespacedName req)"
  shows "map_of (materialize gv req rc d m) ''spec'' = Some (JObject m)
       \<and> fst ` set (materialize gv req rc d m) = {''spec'', ''apiVersion'', ''kind'', ''metadata''}
       \<and> GetAPIVersion (materialize gv req rc d m) =
           GroupVersion_String \<lparr>GroupVersion.Group = ResourceSpec.Group d,
                                GroupVersion.Version = ResourceSpec.Version d\<rparr>
       \<and> GetKind (materialize gv req rc d m) = ResourceSpec.Kind d
       \<and> GetName (materialize gv req rc d m) = ResourceSpec.Name d
       \<and> GetNamespace (materialize gv req rc d m) = ObjectMeta.Namespace (ObjectMeta rc)
       \<and> GetOwnerReferences (materialize gv req rc d m) =
           [\<lparr>APIVersion = GroupVersion_String gv,
             OwnerReference.Kind = ''ResourceCreator'',
             OwnerReference.Name = ObjectMeta.Name (ObjectMeta rc),
             OwnerReference.UID = ObjectMeta.UID (ObjectMeta rc),
             Controller = Some True,
             BlockOwnerDeletion = Some True\<rparr>]
       \<and> GetKind (SetUnstructuredContent [(''spec'', JObject m)]
             (SetGroupVersionKind gvk u)) = []
       \<and> GetAPIVersion (SetUnstructuredContent [(''spec'', JObject m)]
             (SetGroupVersionKind gvk u)) = []"
proof -
  have "GetKind (SetUnstructuredContent [(''spec'', JObject m)] (SetGroupVersionKind gvk u)) = []"
    "GetAPIVersion (SetUnstructuredContent [(''spec'', JObject m)] (SetGroupVersionKind gvk u)) = []"
    by (simp_all add: SetUnstructuredContent_def GetKind_def GetAPIVersion_def getNestedString_def)
  moreover have "NewControllerRef rc
     \<lparr>GroupVersionKind.Group = GroupVersion.Group gv,
      GroupVersionKind.Version = GroupVersion.Version gv,
      GroupVersionKind.Kind = ''ResourceCreator''\<rparr>
     = \<lparr>APIVersion = GroupVersion_String gv,
             OwnerReference.Kind = ''ResourceCreator'',
             OwnerReference.Name = ObjectMeta.Name (ObjectMeta rc),
             OwnerReference.UID = ObjectMeta.UID (ObjectMeta rc),
             Controller = Some True,
             BlockOwnerDeletion = Some True\<rparr>"
    by (simp add: NewControllerRef_def GroupVersionKind_GroupVersion_def GroupVersion_String_def)
  ultimately show ?thesis
    using assms
    by (simp only: materialize_spec materialize_keys materialize_GetAPIVersion
        materialize_GetKind materialize_GetName materialize_GetNamespace
        materialize_GetOwnerReferences simp_thms)
qed

text \<open>The Deployment \<open>web\<close> of the sample cluster.\<close>

theorem C5_materialized_child_witness:
  "ObjectMeta.Namespace (ObjectMeta (demoParent []))
     = NamespacedName.Namespace (NamespacedName demoRequest)
   \<and> GetNamespace webChild = ''default''
   \<and> GetKind webChild = ''Deployment''
   \<and> GetAPIVersion webChild = ''apps/v1''
   \<and> GetName webChild = ''web''"
proof -
  have h: "ObjectMeta.Namespace (ObjectMeta (demoParent [webSpec ''{replicas: 2}'']))
     = NamespacedName.Namespace (NamespacedName demoRequest)"
    by (simp add: sample_defs)
  from C5_materialized_child[OF h, where gv=sampleGroupVersion
      and d="webSpec ''{replicas: 2}''" and m="[(''replicas'', JNumber 2)]"
      and gvk="\<lparr>GroupVersionKind.Group = [], GroupVersionKind.Version = [],
                 GroupVersionKind.Kind = []\<rparr>" and u="[]"]
  show ?thesis
    by (simp add: webChild_def sample_defs GroupVersion_String_def)
qed

text \<open>
  C6: when the parent record is not in the store (and the environment lets the read
  through), or the read answers "not found", \<^verbatim>\<open>Reconcile\<close> returns the zero result
  and no error, leaves every child record as it is and issues the one get of the parent
  and nothing else. When the read fails with any other error, that error is returned,
  again with no call for a child.
\<close>

theorem C6_parent_fetch:
  "(parents s (NamespacedName req) = None \<and> nextFault s = None
      \<or> nextFault s = Some NotFound
     \<longrightarrow> fst (Reconcile unmarshal gv req s) = (\<lparr>Requeue = False, RequeueAfter = 0\<rparr>, None)
       \<and> objects (snd (Reconcile unmarshal gv req s)) = objects s
       \<and> calls (snd (Reconcile unmarshal gv req s))
           = calls s @ [Call VerbGet (Parent (NamespacedName req))])
   \<and> (\<forall>err. nextFault s = Some err \<and> err \<noteq> NotFound
     \<longrightarrow> fst (Reconcile unmarshal gv req s) = (\<lparr>Requeue = False, RequeueAfter = 0\<rparr>, Some err)
       \<and> objects (snd (Reconcile unmarshal gv req s)) = objects s
       \<and> calls (snd (Reconcile unmarshal gv req s))
           = calls s @ [Call VerbGet (Parent (NamespacedName req))])"
proof -
  obtain r s1 where g: "GetResourceCreator (NamespacedName req) s = (r, s1)"
    by (metis prod.exhaust)
  note G = GetResourceCreator_cases[OF g]
  have R: "\<And>e. r = Inl e \<Longrightarrow>
     Reconcile unmarshal gv req s
       = ((\<lparr>Requeue = False, RequeueAfter = 0\<rparr>, IgnoreNotFound (Some e)), s1)"
    using g by (simp add: Reconcile_def)
  have A: "parents s (NamespacedName req) = None \<and> nextFault s = None
      \<or> nextFault s = Some NotFound
     \<longrightarrow> fst (Reconcile unmarshal gv req s) = (\<lparr>Requeue = False, RequeueAfter = 0\<rparr>, None)
       \<and> objects (snd (Reconcile unmarshal gv req s)) = objects s
       \<and> calls (snd (Reconcile unmarshal gv req s))
           = calls s @ [Call VerbGet (Parent (NamespacedName req))]"
  proof
    assume "parents s (NamespacedName req) = None \<and> nextFault s = None
      \<or> nextFault s = Some NotFound"
    with G have "r = Inl NotFound" by auto
    from R[OF this] G show "fst (Reconcile unmarshal gv req s)
         = (\<lparr>Requeue = False, RequeueAfter = 0\<rparr>, None)
       \<and> objects (snd (Reconcile unmarshal gv req s)) = objects s
       \<and> calls (snd (Reconcile unmarshal gv req s))
           = calls s @ [Call VerbGet (Parent (NamespacedName req))]"
      by (simp add: IgnoreNotFound_def)
  qed
  have B: "\<forall>err. nextFault s = Some err \<and> err \<noteq> NotFound
     \<longrightarrow> fst (Reconcile unmarshal gv req s) = (\<lparr>Requeue = False, RequeueAfter = 0\<rparr>, Some err)
       \<and> objects (snd (Reconcile unmarshal gv req s)) = objects s
       \<and> calls (snd (Reconcile unmarshal gv req s))
           = calls s @ [Call VerbGet (Parent (NamespacedName req))]"
  proof (intro allI impI)
    fix err assume h: "nextFault s = Some err \<and> err \<noteq> NotFound"
    with G have "r = Inl err" by auto
    from R[OF this] G h show "fst (Reconcile unmarshal gv req s)
         = (\<lparr>Requeue = False, RequeueAfter = 0\<rparr>, Some err)
       \<and> objects (snd (Reconcile unmarshal gv req s)) = objects s
       \<and> calls (snd (Reconcile unmarshal gv req s))
           = calls s @ [Call VerbGet (Parent (NamespacedName req))]"
      by (simp add: IgnoreNotFound_def)
  qed
  from A B show ?thesis by blast
qed

text \<open>A request for a parent that is not there, and a read that times out.\<close>

theorem C6_parent_fetch_witness:
  "parents (demoCluster [webSpec ''{replicas: 2}''])
       (NamespacedName \<lparr>NamespacedName =
          \<lparr>NamespacedName.Namespace = ''default'', NamespacedName.Name = ''gone''\<rparr>\<rparr>) = None
   \<and> nextFault (demoCluster [webSpec ''{replicas: 2}'']) = None
   \<and> fst (Reconcile sampleUnmarshal sampleGroupVersion
         \<lparr>NamespacedName =
            \<lparr>NamespacedName.Namespace = ''default'', NamespacedName.Name = ''gone''\<rparr>\<rparr>
         (demoCluster [webSpec ''{replicas: 2}'']))
       = (\<lparr>Requeue = False, RequeueAfter = 0\<rparr>, None)
   \<and> objects (snd (Reconcile sampleUnmarshal sampleGroupVersion
         \<lparr>NamespacedName =
            \<lparr>NamespacedName.Namespace = ''default'', NamespacedName.Name = ''gone''\<rparr>\<rparr>
         (demoCluster [webSpec ''{replicas: 2}''])))
       = Map.empty
   \<and> nextFault ((demoCluster [webSpec ''{replicas: 2}''])\<lparr>faults := [Some (Failure ''timeout'')]\<rparr>)
       = Some (Failure ''timeout'')
   \<and> Failure ''timeout'' \<noteq> NotFound
   \<and> fst (Reconcile sampleUnmarshal sampleGroupVersion demoRequest
         ((demoCluster [webSpec ''{replicas: 2}''])\<lparr>faults := [Some (Failure ''timeout'')]\<rparr>))
       = (\<lparr>Requeue = False, RequeueAfter = 0\<rparr>, Some (Failure ''timeout''))
   \<and> objects (snd (Reconcile sampleUnmarshal sampleGroupVersion demoRequest
         ((demoCluster [webSpec ''{replicas: 2}''])\<lparr>faults := [Some (Failure ''timeout'')]\<rparr>)))
       = Map.empty"
proof -
  let ?gone = "\<lparr>NamespacedName =
      \<lparr>NamespacedName.Namespace = ''default'', NamespacedName.Name = ''gone''\<rparr>\<rparr>"
  let ?s = "demoCluster [webSpec ''{replicas: 2}'']"
  let ?t = "?s\<lparr>faults := [Some (Failure ''timeout'')]\<rparr>"
  have a: "parents ?s (NamespacedName ?gone) = None" "nextFault ?s = None"
    by (simp_all add: nextFault_def sample_defs)
  have b: "nextFault ?t = Some (Failure ''timeout'')" "Failure ''timeout'' \<noteq> NotFound"
    by (simp_all add: nextFault_def)
  from C6_parent_fetch[of ?s ?gone sampleUnmarshal sampleGroupVersion] a
  have A: "fst (Reconcile sampleUnmarshal sampleGroupVersion ?gone ?s)
       = (\<lparr>Requeue = False, RequeueAfter = 0\<rparr>, None)
     \<and> objects (snd (Reconcile sampleUnmarshal sampleGroupVersion ?gone ?s)) = objects ?s"
    by blast
  from C6_parent_fetch[of ?t demoRequest sampleUnmarshal sampleGroupVersion] b
  have B: "fst (Reconcile sampleUnmarshal sampleGroupVersion demoRequest ?t)
       = (\<lparr>Requeue = False, RequeueAfter = 0\<rparr>, Some (Failure ''timeout''))
     \<and> objects (snd (Reconcile sampleUnmarshal sampleGroupVersion demoRequest ?t)) = objects ?t"
    by blast
  have "objects ?s = Map.empty" "objects ?t = Map.empty"
    by (simp_all add: demoCluster_def)
  with A B a b show ?thesis by simp
qed

text \<open>
  C7: \<^verbatim>\<open>dynamicHandler\<close> never fails. For a child without a controlling owner
  reference (in particular with no owner reference at all) it returns nothing; for a
  child whose controlling owner reference has a kind other than \<open>ResourceCreator\<close> it
  returns nothing; for one whose controlling owner reference has the kind
  \<open>ResourceCreator\<close>, and only for those, it returns the request with the child's own
  namespace and the name of the reference. A child built by \<^verbatim>\<open>Reconcile\<close> is routed
  to its parent.
\<close>

theorem C7_event_routing:
  "(GetControllerOf obj = None \<longrightarrow> dynamicHandler obj = [])
   \<and> (\<forall>ownerRef. GetControllerOf obj = Some ownerRef \<longrightarrow>
         dynamicHandler obj =
           (if OwnerReference.Kind ownerRef = ''ResourceCreator''
            then [\<lparr>NamespacedName =
                    \<lparr>NamespacedName.Namespace = GetNamespace obj,
                     NamespacedName.Name = OwnerReference.Name ownerRef\<rparr>\<rparr>]
            else []))
   \<and> (GetOwnerReferences obj = [] \<longrightarrow> dynamicHandler obj = [])
   \<and> (dynamicHandler obj \<noteq> [] \<longleftrightarrow>
         (\<exists>ownerRef\<in>set (GetOwnerReferences obj).
             GetControllerOf obj = Some ownerRef \<and> Controller ownerRef = Some True
           \<and> OwnerReference.Kind ownerRef = ''ResourceCreator''))
   \<and> dynamicHandler (materialize gv req rc d m) =
         [\<lparr>NamespacedName =
            \<lparr>NamespacedName.Namespace = NamespacedName.Namespace (NamespacedName req),
             NamespacedName.Name = ObjectMeta.Name (ObjectMeta rc)\<rparr>\<rparr>]"
proof -
  have A: "GetControllerOf obj = None \<longrightarrow> dynamicHandler obj = []"
    by (simp add: dynamicHandler_def)
  have B: "\<forall>ownerRef. GetControllerOf obj = Some ownerRef \<longrightarrow>
         dynamicHandler obj =
           (if OwnerReference.Kind ownerRef = ''ResourceCreator''
            then [\<lparr>NamespacedName =
                    \<lparr>NamespacedName.Namespace = GetNamespace obj,
                     NamespacedName.Name = OwnerReference.Name ownerRef\<rparr>\<rparr>]
            else [])"
    by (simp add: dynamicHandler_def)
  have C: "GetOwnerReferences obj = [] \<longrightarrow> dynamicHandler obj = []"
    by (simp add: dynamicHandler_def GetControllerOf_def)
  have D: "dynamicHandler obj \<noteq> [] \<longleftrightarrow>
         (\<exists>ownerRef\<in>set (GetOwnerReferences obj).
             GetControllerOf obj = Some ownerRef \<and> Controller ownerRef = Some True
           \<and> OwnerReference.Kind ownerRef = ''ResourceCreator'')"
  proof (cases "GetControllerOf obj")
    case None
    then show ?thesis by (simp add: dynamicHandler_def)
  next
    case (Some ownerRef)
    with GetControllerOfRefs_Some[of "GetOwnerReferences obj" ownerRef]
    have "ownerRef \<in> set (GetOwnerReferences obj)" "Controller ownerRef = Some True"
      by (simp_all add: GetControllerOf_def)
    with Some show ?thesis by (auto simp: dynamicHandler_def)
  qed
  have E: "dynamicHandler (materialize gv req rc d m) =
         [\<lparr>NamespacedName =
            \<lparr>NamespacedName.Namespace = NamespacedName.Namespace (NamespacedName req),
             NamespacedName.Name = ObjectMeta.Name (ObjectMeta rc)\<rparr>\<rparr>]"
    by (simp add: dynamicHandler_def materialize_GetControllerOf materialize_GetNamespace
        NewControllerRef_def)
  from A B C D E show ?thesis by blast
qed

text \<open>
  An object without owner references, the Deployment \<open>web\<close> of the sample cluster, and
  an object controlled by a ReplicaSet.
\<close>

theorem C7_event_routing_witness:
  "GetControllerOf [] = None \<and> dynamicHandler [] = []
   \<and> GetControllerOf webChild
       = Some \<lparr>APIVersion = ''creator.m3.io/v1'', OwnerReference.Kind = ''ResourceCreator'',
               OwnerReference.Name = ''demo'', OwnerReference.UID = ''uid-1'',
               Controller = Some True, BlockOwnerDeletion = Some True\<rparr>
   \<and> dynamicHandler webChild = [demoRequest]
   \<and> GetControllerOf (SetOwnerReferences
         [\<lparr>APIVersion = ''apps/v1'', OwnerReference.Kind = ''ReplicaSet'',
           OwnerReference.Name = ''web-1'', OwnerReference.UID = ''uid-2'',
           Controller = Some True, BlockOwnerDeletion = Some True\<rparr>] [])
       = Some \<lparr>APIVersion = ''apps/v1'', OwnerReference.Kind = ''ReplicaSet'',
           OwnerReference.Name = ''web-1'', OwnerReference.UID = ''uid-2'',
           Controller = Some True, BlockOwnerDeletion = Some True\<rparr>
   \<and> dynamicHandler (SetOwnerReferences
         [\<lparr>APIVersion = ''apps/v1'', OwnerReference.Kind = ''ReplicaSet'',
           OwnerReference.Name = ''web-1'', OwnerReference.UID = ''uid-2'',
           Controller = Some True, BlockOwnerDeletion = Some True\<rparr>] []) = []"
proof -
  let ?ref = "\<lparr>APIVersion = ''creator.m3.io/v1'', OwnerReference.Kind = ''ResourceCreator'',
               OwnerReference.Name = ''demo'', OwnerReference.UID = ''uid-1'',
               Controller = Some True, BlockOwnerDeletion = Some True\<rparr>"
  let ?rs = "\<lparr>APIVersion = ''apps/v1'', OwnerReference.Kind = ''ReplicaSet'',
           OwnerReference.Name = ''web-1'', OwnerReference.UID = ''uid-2'',
           Controller = Some True, BlockOwnerDeletion = Some True\<rparr>"
  have a: "GetControllerOf [] = None"
    by (simp add: GetControllerOf_def GetOwnerReferences_def)
  have b: "GetControllerOf webChild = Some ?ref"
    by (simp add: webChild_def materialize_GetControllerOf NewControllerRef_def
        GroupVersionKind_GroupVersion_def GroupVersion_String_def sample_defs)
  have c: "GetControllerOf (SetOwnerReferences [?rs] []) = Some ?rs"
    by (simp add: GetControllerOf_def GetOwnerReferences_def SetOwnerReferences_def
        extract_ownerReferenceToUnstructured)
  have n: "GetNamespace webChild = ''default''"
    by (simp add: webChild_def materialize_GetNamespace sample_defs)
  from C7_event_routing[of "[]"] a have A: "dynamicHandler [] = []" by blast
  from C7_event_routing[of webChild] b n have B: "dynamicHandler webChild = [demoRequest]"
    by (simp add: sample_defs)
  from C7_event_routing[of "SetOwnerReferences [?rs] []"] c
  have C: "dynamicHandler (SetOwnerReferences [?rs] []) = []" by simp
  from a b c A B C show ?thesis by simp
qed

text \<open>
  C8: for every parent record and every state of the store, \<^verbatim>\<open>Reconcile\<close> issues no
  delete call, and every child record that exists before the call exists after it; so a
  child whose entry has been removed from the list stays.
\<close>

theorem C8_no_delete:
  "(\<exists>new. calls (snd (Reconcile unmarshal gv req s)) = calls s @ new
         \<and> (\<forall>target. Call VerbDelete target \<notin> set new))
   \<and> dom (objects s) \<subseteq> dom (objects (snd (Reconcile unmarshal gv req s)))"
proof -
  obtain res err s' where r: "Reconcile unmarshal gv req s = ((res, err), s')"
    by (metis prod.exhaust)
  from Reconcile_frame[OF r] obtain new where
    new: "calls s' = calls s @ Call VerbGet (Parent (NamespacedName req)) # new"
      "list_all childCall new"
    and d: "dom (objects s) \<subseteq> dom (objects s')"
    by blast
  have "\<forall>target. Call VerbDelete target \<notin> set new"
  proof
    fix target
    show "Call VerbDelete target \<notin> set new"
    proof
      assume "Call VerbDelete target \<in> set new"
      with new(2) have "childCall (Call VerbDelete target)" by (simp add: list_all_iff)
      then show False by (cases target) (simp_all add: childCall_def)
    qed
  qed
  then have "\<forall>target. Call VerbDelete target
      \<notin> set (Call VerbGet (Parent (NamespacedName req)) # new)"
    by simp
  with new(1) d r show ?thesis by (metis snd_conv)
qed

text \<open>
  After a cycle over \<open>web\<close> and \<open>load\<close> the entry \<open>load\<close> is removed from the
  parent; the next cycle leaves the Job \<open>load\<close> in the store.
\<close>

theorem C8_no_delete_witness:
  "jobKey \<in> dom (objects (snd (Reconcile sampleUnmarshal sampleGroupVersion demoRequest
      ((snd (Reconcile sampleUnmarshal sampleGroupVersion demoRequest
          (demoCluster [webSpec ''{replicas: 2}'', jobSpec ''{replicas: 3}''])))
        \<lparr>parents := [demoKey \<mapsto> demoParent [webSpec ''{replicas: 2}'']]\<rparr>))))"
proof -
  let ?s1 = "(snd (Reconcile sampleUnmarshal sampleGroupVersion demoRequest
          (demoCluster [webSpec ''{replicas: 2}'', jobSpec ''{replicas: 3}''])))
        \<lparr>parents := [demoKey \<mapsto> demoParent [webSpec ''{replicas: 2}'']]\<rparr>"
  have "jobKey \<in> dom (objects ?s1)"
    by (simp add: demo_run_two)
  with C8_no_delete[of sampleUnmarshal sampleGroupVersion demoRequest ?s1]
  show ?thesis by blast
qed



text \<open>
  C10: when no owner reference of kind \<open>ResourceCreator\<close> has its controller flag set
  and true, \<^verbatim>\<open>dynamicHandler\<close> returns nothing; changing the API versions (group and
  version) of the owner references in any way does not change what it returns; whenever
  the controlling owner reference has the kind \<open>ResourceCreator\<close>, whatever its API
  version, the handler returns exactly one request, with the child's namespace and the
  name of that reference (in particular when the first owner reference is such a
  controlling one); and it never returns more than one request.
\<close>

theorem C10_controller_reference_only:
  "((\<forall>ref\<in>set (GetOwnerReferences obj).
        OwnerReference.Kind ref = ''ResourceCreator'' \<longrightarrow> Controller ref \<noteq> Some True)
      \<longrightarrow> dynamicHandler obj = [])
   \<and> (GetNamespace obj' = GetNamespace obj
        \<and> GetOwnerReferences obj' = map (\<lambda>ref. ref\<lparr>APIVersion := f ref\<rparr>) (GetOwnerReferences obj)
      \<longrightarrow> dynamicHandler obj' = dynamicHandler obj)
   \<and> (\<forall>ownerRef. GetControllerOf obj = Some ownerRef
          \<and> OwnerReference.Kind ownerRef = ''ResourceCreator''
      \<longrightarrow> dynamicHandler obj =
            [\<lparr>NamespacedName =
               \<lparr>NamespacedName.Namespace = GetNamespace obj,
                NamespacedName.Name = OwnerReference.Name ownerRef\<rparr>\<rparr>]
          \<and> length (dynamicHandler obj) = 1)
   \<and> (\<forall>ownerRef rest. GetOwnerReferences obj = ownerRef # rest
          \<and> Controller ownerRef = Some True
          \<and> OwnerReference.Kind ownerRef = ''ResourceCreator''
      \<longrightarrow> dynamicHandler obj =
            [\<lparr>NamespacedName =
               \<lparr>NamespacedName.Namespace = GetNamespace obj,
                NamespacedName.Name = OwnerReference.Name ownerRef\<rparr>\<rparr>])
   \<and> length (dynamicHandler obj) \<le> 1"
proof -
  have A: "(\<forall>ref\<in>set (GetOwnerReferences obj).
        OwnerReference.Kind ref = ''ResourceCreator'' \<longrightarrow> Controller ref \<noteq> Some True)
      \<longrightarrow> dynamicHandler obj = []"
  proof
    assume h: "\<forall>ref\<in>set (GetOwnerReferences obj).
        OwnerReference.Kind ref = ''ResourceCreator'' \<longrightarrow> Controller ref \<noteq> Some True"
    show "dynamicHandler obj = []"
    proof (cases "GetControllerOf obj")
      case None
      then show ?thesis by (simp add: dynamicHandler_def)
    next
      case (Some ownerRef)
      with GetControllerOfRefs_Some[of "GetOwnerReferences obj" ownerRef]
      have "ownerRef \<in> set (GetOwnerReferences obj)" "Controller ownerRef = Some True"
        by (simp_all add: GetControllerOf_def)
      with h have "OwnerReference.Kind ownerRef \<noteq> ''ResourceCreator''" by blast
      with Some show ?thesis by (simp add: dynamicHandler_def)
    qed
  qed
  have B: "GetNamespace obj' = GetNamespace obj
        \<and> GetOwnerReferences obj' = map (\<lambda>ref. ref\<lparr>APIVersion := f ref\<rparr>) (GetOwnerReferences obj)
      \<longrightarrow> dynamicHandler obj' = dynamicHandler obj"
    by (cases "GetControllerOfRefs (GetOwnerReferences obj)")
      (simp_all add: dynamicHandler_def GetControllerOf_def GetControllerOfRefs_change_apiVersion)
  have C: "length (dynamicHandler obj) \<le> 1"
    by (simp add: dynamicHandler_def split: option.splits)
  have D: "\<forall>ownerRef. GetControllerOf obj = Some ownerRef
          \<and> OwnerReference.Kind ownerRef = ''ResourceCreator''
      \<longrightarrow> dynamicHandler obj =
            [\<lparr>NamespacedName =
               \<lparr>NamespacedName.Namespace = GetNamespace obj,
                NamespacedName.Name = OwnerReference.Name ownerRef\<rparr>\<rparr>]
          \<and> length (dynamicHandler obj) = 1"
    by (simp add: dynamicHandler_def)
  have E: "\<forall>ownerRef rest. GetOwnerReferences obj = ownerRef # rest
          \<and> Controller ownerRef = Some True
          \<and> OwnerReference.Kind ownerRef = ''ResourceCreator''
      \<longrightarrow> dynamicHandler obj =
            [\<lparr>NamespacedName =
               \<lparr>NamespacedName.Namespace = GetNamespace obj,
                NamespacedName.Name = OwnerReference.Name ownerRef\<rparr>\<rparr>]"
    by (simp add: dynamicHandler_def GetControllerOf_def)
  from A B C D E show ?thesis by blast
qed

text \<open>
  A plain owner reference to a \<open>ResourceCreator\<close> is not routed; a controlling one
  of another API group is, to the same request as the Deployment \<open>web\<close>.
\<close>

theorem C10_controller_reference_only_witness:
  "GetOwnerReferences (SetOwnerReferences
         [\<lparr>APIVersion = ''creator.m3.io/v1'', OwnerReference.Kind = ''ResourceCreator'',
           OwnerReference.Name = ''demo'', OwnerReference.UID = ''uid-1'',
           Controller = None, BlockOwnerDeletion = None\<rparr>] [])
     = [\<lparr>APIVersion = ''creator.m3.io/v1'', OwnerReference.Kind = ''ResourceCreator'',
         OwnerReference.Name = ''demo'', OwnerReference.UID = ''uid-1'',
         Controller = None, BlockOwnerDeletion = None\<rparr>]
   \<and> dynamicHandler (SetOwnerReferences
         [\<lparr>APIVersion = ''creator.m3.io/v1'', OwnerReference.Kind = ''ResourceCreator'',
           OwnerReference.Name = ''demo'', OwnerReference.UID = ''uid-1'',
           Controller = None, BlockOwnerDeletion = None\<rparr>] []) = []
   \<and> GetControllerOf (SetOwnerReferences
         [\<lparr>APIVersion = ''other.example/v9'', OwnerReference.Kind = ''ResourceCreator'',
           OwnerReference.Name = ''demo'', OwnerReference.UID = ''uid-1'',
           Controller = Some True, BlockOwnerDeletion = Some True\<rparr>]
         (SetNamespace ''default'' []))
       = Some \<lparr>APIVersion = ''other.example/v9'', OwnerReference.Kind = ''ResourceCreator'',
           OwnerReference.Name = ''demo'', OwnerReference.UID = ''uid-1'',
           Controller = Some True, BlockOwnerDeletion = Some True\<rparr>
   \<and> dynamicHandler (SetOwnerReferences
         [\<lparr>APIVersion = ''other.example/v9'', OwnerReference.Kind = ''ResourceCreator'',
           OwnerReference.Name = ''demo'', OwnerReference.UID = ''uid-1'',
           Controller = Some True, BlockOwnerDeletion = Some True\<rparr>]
         (SetNamespace ''default'' [])) = [demoRequest]
   \<and> dynamicHandler (SetOwnerReferences
         [\<lparr>APIVersion = ''other.example/v9'', OwnerReference.Kind = ''ResourceCreator'',
           OwnerReference.Name = ''demo'', OwnerReference.UID = ''uid-1'',
           Controller = Some True, BlockOwnerDeletion = Some True\<rparr>]
         (SetNamespace ''default'' [])) = dynamicHandler webChild
   \<and> length (dynamicHandler webChild) \<le> 1"
proof -
  let ?weak = "SetOwnerReferences
         [\<lparr>APIVersion = ''creator.m3.io/v1'', OwnerReference.Kind = ''ResourceCreator'',
           OwnerReference.Name = ''demo'', OwnerReference.UID = ''uid-1'',
           Controller = None, BlockOwnerDeletion = None\<rparr>] []"
  let ?other = "SetOwnerReferences
         [\<lparr>APIVersion = ''other.example/v9'', OwnerReference.Kind = ''ResourceCreator'',
           OwnerReference.Name = ''demo'', OwnerReference.UID = ''uid-1'',
           Controller = Some True, BlockOwnerDeletion = Some True\<rparr>]
         (SetNamespace ''default'' [])"
  have w: "GetOwnerReferences ?weak
     = [\<lparr>APIVersion = ''creator.m3.io/v1'', OwnerReference.Kind = ''ResourceCreator'',
         OwnerReference.Name = ''demo'', OwnerReference.UID = ''uid-1'',
         Controller = None, BlockOwnerDeletion = None\<rparr>]"
    by (simp add: GetOwnerReferences_def SetOwnerReferences_def
        extract_ownerReferenceToUnstructured)
  have a: "\<forall>ref\<in>set (GetOwnerReferences ?weak).
       OwnerReference.Kind ref = ''ResourceCreator'' \<longrightarrow> Controller ref \<noteq> Some True"
    unfolding w by simp
  have n: "GetNamespace webChild = ''default''"
    by (simp add: webChild_def materialize_GetNamespace sample_defs)
  have b: "GetNamespace ?other = GetNamespace webChild"
    unfolding n
    by (simp add: GetNamespace_def getNestedString_def SetOwnerReferences_def SetNamespace_def)
  have r: "GetOwnerReferences webChild =
      [\<lparr>APIVersion = ''creator.m3.io/v1'', OwnerReference.Kind = ''ResourceCreator'',
        OwnerReference.Name = ''demo'', OwnerReference.UID = ''uid-1'',
        Controller = Some True, BlockOwnerDeletion = Some True\<rparr>]"
    by (simp add: webChild_def materialize_GetOwnerReferences NewControllerRef_def sample_defs
        GroupVersionKind_GroupVersion_def GroupVersion_String_def)
  have c: "GetOwnerReferences ?other
      = map (\<lambda>ref. ref\<lparr>APIVersion := ''other.example/v9''\<rparr>) (GetOwnerReferences webChild)"
    unfolding r
    by (simp add: GetOwnerReferences_def SetOwnerReferences_def SetNamespace_def
        extract_ownerReferenceToUnstructured)
  have d: "dynamicHandler webChild = [demoRequest]"
    by (simp add: dynamicHandler_def webChild_def materialize_GetControllerOf
        materialize_GetNamespace NewControllerRef_def sample_defs)
  note T = C10_controller_reference_only
  from T[of ?weak] a have A: "dynamicHandler ?weak = []" by blast
  have o: "GetControllerOf ?other
      = Some \<lparr>APIVersion = ''other.example/v9'', OwnerReference.Kind = ''ResourceCreator'',
           OwnerReference.Name = ''demo'', OwnerReference.UID = ''uid-1'',
           Controller = Some True, BlockOwnerDeletion = Some True\<rparr>"
    by (simp add: GetControllerOf_def GetOwnerReferences_def SetOwnerReferences_def
        SetNamespace_def extract_ownerReferenceToUnstructured)
  have on: "GetNamespace ?other = ''default''"
    using b n by simp
  from T[of ?other] o on
  have B: "dynamicHandler ?other = [demoRequest]"
    by (simp add: sample_defs)
  from T[of webChild ?other "\<lambda>ref. ''other.example/v9''"] b c
  have B': "dynamicHandler ?other = dynamicHandler webChild" by blast
  from T[of webChild] have C: "length (dynamicHandler webChild) \<le> 1" by blast
  from w A o B B' C show ?thesis by blast
qed

end
